theory Spec2Isabelle
  imports Main "HOL-Library.Sublist"
begin

section \<open>Values of the host language\<close>

text \<open>
  Engine property objects are JSON-like trees. An object is an association list in the
  enumeration order of its keys (keys are distinct); numbers are the integers the engine
  hands out for ranks and counters. \<open>JUndefined\<close> is the value of a missing property.
\<close>

datatype json =
    JUndefined
  | JNull
  | JBool bool
  | JNum int
  | JStr string
  | JArr "json list"
  | JObj "(string \<times> json) list"

text \<open>
  A thrown exception or a rejected promise is a value: \<open>TypeError\<close> is what reading a
  property of \<open>undefined\<close> or \<open>null\<close> (or calling a missing method) throws,
  \<open>SyntaxError\<close> is what \<open>new RegExp\<close> throws for a pattern that is no regular
  expression, \<open>Rejected msg\<close> is a promise rejected with a message.
\<close>

datatype error = TypeError | SyntaxError | Rejected string

definition bindE :: "error + 'a \<Rightarrow> ('a \<Rightarrow> error + 'b) \<Rightarrow> error + 'b" where
  "bindE m f = (case m of Inl e \<Rightarrow> Inl e | Inr x \<Rightarrow> f x)"

text \<open>
  \<open>v.k\<close>: throws on \<open>undefined\<close> and \<open>null\<close>, gives \<open>undefined\<close> for a key the
  object does not have. None of the keys read by the program is a built-in property of
  strings, arrays, numbers or booleans, so those give \<open>undefined\<close>.
\<close>

fun getProp :: "json \<Rightarrow> string \<Rightarrow> error + json" where
  "getProp JUndefined k = Inl TypeError"
| "getProp JNull k = Inl TypeError"
| "getProp (JObj kvs) k = Inr (case map_of kvs k of None \<Rightarrow> JUndefined | Some v \<Rightarrow> v)"
| "getProp v k = Inr JUndefined"

text \<open>
  \<open>a === b\<close> on two values read from two separately fetched property trees: primitives
  compare by value, two objects or two arrays are never the same reference.
\<close>

fun strictEq :: "json \<Rightarrow> json \<Rightarrow> bool" where
  "strictEq (JObj a) b = False"
| "strictEq (JArr a) b = False"
| "strictEq a b = (a = b)"

text \<open>\<open>obj.k = v\<close> on an object: an existing key keeps its place, a new key goes last.\<close>

fun setKey :: "string \<Rightarrow> json \<Rightarrow> (string \<times> json) list \<Rightarrow> (string \<times> json) list" where
  "setKey k v [] = [(k, v)]"
| "setKey k v ((k', v') # kvs) = (if k' = k then (k, v) # kvs else (k', v') # setKey k v kvs)"

text \<open>\<open>delete obj.k\<close>.\<close>

definition deleteKey :: "string \<Rightarrow> (string \<times> json) list \<Rightarrow> (string \<times> json) list" where
  "deleteKey k kvs = filter (\<lambda>(k', v). k' \<noteq> k) kvs"

subsection \<open>Decimal numerals\<close>

definition digitChar :: "nat \<Rightarrow> char" where
  "digitChar d =
     (if d = 0 then CHR ''0'' else if d = 1 then CHR ''1'' else if d = 2 then CHR ''2''
      else if d = 3 then CHR ''3'' else if d = 4 then CHR ''4'' else if d = 5 then CHR ''5''
      else if d = 6 then CHR ''6'' else if d = 7 then CHR ''7'' else if d = 8 then CHR ''8''
      else CHR ''9'')"

fun showNat :: "nat \<Rightarrow> string" where
  "showNat n = (if n < 10 then [digitChar n] else showNat (n div 10) @ [digitChar (n mod 10)])"

declare showNat.simps [simp del]

definition showInt :: "int \<Rightarrow> string" where
  "showInt i = (if i < 0 then ''-'' @ showNat (nat (- i)) else showNat (nat i))"

subsection \<open>Underscore's omit\<close>

text \<open>
  \<open>_.omit(obj, keys)\<close> copies the enumerable properties of \<open>obj\<close> whose key is not
  listed. \<open>undefined\<close> and \<open>null\<close> give the empty object, an array gives an object
  keyed by its indices. The program applies it to property objects, to sheet cells and
  to a possibly missing \<open>qMetaDef\<close> only.
\<close>

fun omit :: "string list \<Rightarrow> json \<Rightarrow> json" where
  "omit ks (JObj kvs) = JObj (filter (\<lambda>(k, v). k \<notin> set ks) kvs)"
| "omit ks (JArr xs) = JObj (filter (\<lambda>(k, v). k \<notin> set ks) (zip (map showNat [0..<length xs]) xs))"
| "omit ks v = JObj []"

subsection \<open>JSON.stringify\<close>

definition hexDigit :: "nat \<Rightarrow> char" where
  "hexDigit d = ''0123456789abcdef'' ! d"

definition escapeChar :: "char \<Rightarrow> string" where
  "escapeChar c =
     (if c = CHR 0x22 then [CHR 0x5C, CHR 0x22]
      else if c = CHR 0x5C then [CHR 0x5C, CHR 0x5C]
      else if c = CHR 0x08 then [CHR 0x5C, CHR ''b'']
      else if c = CHR 0x0C then [CHR 0x5C, CHR ''f'']
      else if c = CHR 0x0A then [CHR 0x5C, CHR ''n'']
      else if c = CHR 0x0D then [CHR 0x5C, CHR ''r'']
      else if c = CHR 0x09 then [CHR 0x5C, CHR ''t'']
      else if (of_char c :: nat) < 32
        then [CHR 0x5C, CHR ''u'', CHR ''0'', CHR ''0'',
              hexDigit (of_char c div 16), hexDigit (of_char c mod 16)]
      else [c])"

definition quoteStr :: "string \<Rightarrow> string" where
  "quoteStr s = [CHR 0x22] @ concat (map escapeChar s) @ [CHR 0x22]"

fun commaSep :: "string list \<Rightarrow> string" where
  "commaSep [] = []"
| "commaSep [x] = x"
| "commaSep (x # y # ys) = x @ '','' @ commaSep (y # ys)"

text \<open>
  \<open>JSON.stringify(v)\<close>: \<open>None\<close> is the result \<open>undefined\<close>. A property whose value
  is \<open>undefined\<close> is left out of an object and written \<open>null\<close> in an array.
\<close>

fun stringify :: "json \<Rightarrow> string option" where
  "stringify JUndefined = None"
| "stringify JNull = Some ''null''"
| "stringify (JBool b) = Some (if b then ''true'' else ''false'')"
| "stringify (JNum n) = Some (showInt n)"
| "stringify (JStr s) = Some (quoteStr s)"
| "stringify (JArr xs) =
     Some (''['' @ commaSep (map (\<lambda>x. case stringify x of None \<Rightarrow> ''null'' | Some s \<Rightarrow> s) xs) @ '']'')"
| "stringify (JObj kvs) =
     Some (''{'' @ commaSep (concat (map (\<lambda>(k, v). case stringify v of None \<Rightarrow> []
                                                   | Some s \<Rightarrow> [quoteStr k @ '':'' @ s]) kvs)) @ ''}'')"

section \<open>Items and the objects of the current app\<close>

datatype item_type = Script | Sheet | Dimension | Measure | MasterObject | AlternateState | Variable

text \<open>
  An item as the collectors build it. \<open>codeScriptValue\<close> is \<open>item.code.script.value\<close>,
  the body of a script section; \<open>searchTerms\<close> is the string the master-object collector
  derives from the data definition. The preview details are not part of any decision.
\<close>

record item =
  itemId :: string
  itemType :: item_type
  label :: string
  properties :: json
  searchTerms :: string
  codeScriptValue :: string

text \<open>
  \<open>currAppObjects\<close>: the item lists of the current app by type, \<open>None\<close> for a type whose
  list was never loaded.
\<close>

type_synonym curr_app_objects = "item_type \<Rightarrow> item list option"

text \<open>\<open>_.some\<close>, \<open>_.every\<close> and \<open>Array.prototype.filter\<close> with a predicate that may throw.\<close>

fun some_e :: "('a \<Rightarrow> error + bool) \<Rightarrow> 'a list \<Rightarrow> error + bool" where
  "some_e p [] = Inr False"
| "some_e p (x # xs) =
     (case p x of Inl e \<Rightarrow> Inl e | Inr b \<Rightarrow> if b then Inr True else some_e p xs)"

fun every_e :: "('a \<Rightarrow> error + bool) \<Rightarrow> 'a list \<Rightarrow> error + bool" where
  "every_e p [] = Inr True"
| "every_e p (x # xs) =
     (case p x of Inl e \<Rightarrow> Inl e | Inr b \<Rightarrow> if b then every_e p xs else Inr False)"

fun filter_e :: "('a \<Rightarrow> error + bool) \<Rightarrow> 'a list \<Rightarrow> error + 'a list" where
  "filter_e p [] = Inr []"
| "filter_e p (x # xs) =
     (case p x of Inl e \<Rightarrow> Inl e
      | Inr b \<Rightarrow> (case filter_e p xs of Inl e \<Rightarrow> Inl e
                 | Inr ys \<Rightarrow> Inr (if b then x # ys else ys)))"

text \<open>\<open>a.properties.qMetaDef.title\<close> and \<open>a.properties.k\<close>.\<close>

definition titleOf :: "item \<Rightarrow> error + json" where
  "titleOf a = bindE (getProp (properties a) ''qMetaDef'') (\<lambda>m. getProp m ''title'')"

definition propOf :: "string \<Rightarrow> item \<Rightarrow> error + json" where
  "propOf k a = getProp (properties a) k"

text \<open>\<open>f(a) === f(item)\<close>, the left operand read first.\<close>

definition sameBy :: "(item \<Rightarrow> error + json) \<Rightarrow> item \<Rightarrow> item \<Rightarrow> error + bool" where
  "sameBy f a item = bindE (f a) (\<lambda>x. bindE (f item) (\<lambda>y. Inr (strictEq x y)))"

text \<open>\<open>l && r\<close> with a right operand that is only evaluated when the left one holds.\<close>

definition andE :: "error + bool \<Rightarrow> error + bool \<Rightarrow> error + bool" where
  "andE l r = bindE l (\<lambda>b. if b then r else Inr False)"

subsection \<open>doesItemExistInCurrentApp\<close>

definition doesItemExistInCurrentApp :: "curr_app_objects \<Rightarrow> item \<Rightarrow> error + bool" where
  "doesItemExistInCurrentApp objs item =
     (case objs (itemType item) of
        None \<Rightarrow> Inr False
      | Some xs \<Rightarrow>
          (case itemType item of
             Script \<Rightarrow> some_e (\<lambda>a. Inr (codeScriptValue a = codeScriptValue item)) xs
           | Sheet \<Rightarrow> some_e (\<lambda>a. sameBy titleOf a item) xs
           | Dimension \<Rightarrow> some_e (\<lambda>a. sameBy titleOf a item) xs
           | Measure \<Rightarrow> some_e (\<lambda>a. sameBy titleOf a item) xs
           | MasterObject \<Rightarrow>
               some_e (\<lambda>a. andE (sameBy titleOf a item)
                             (andE (sameBy (propOf ''visualization'') a item)
                                   (Inr (searchTerms a = searchTerms item)))) xs
           | AlternateState \<Rightarrow> some_e (\<lambda>a. Inr (itemId a = itemId item)) xs
           | Variable \<Rightarrow>
               some_e (\<lambda>a. andE (sameBy (propOf ''qName'') a item)
                                  (sameBy (propOf ''qDefinition'') a item)) xs))"

subsection \<open>isItemImportableInCurrentApp\<close>

definition isItemImportableInCurrentApp :: "curr_app_objects \<Rightarrow> item \<Rightarrow> error + bool" where
  "isItemImportableInCurrentApp objs item =
     (case objs (itemType item) of
        None \<Rightarrow> Inr True
      | Some xs \<Rightarrow>
          (case itemType item of
             AlternateState \<Rightarrow> every_e (\<lambda>a. Inr (itemId a \<noteq> itemId item)) xs
           | Variable \<Rightarrow>
               every_e (\<lambda>a. bindE (sameBy (propOf ''qName'') a item) (\<lambda>b. Inr (\<not> b))) xs
           | _ \<Rightarrow> Inr True))"

subsection \<open>getTargetIdIfItemIsUpdatableInCurrentApp\<close>

text \<open>
  \<open>JSON.stringify(x) !== JSON.stringify(y)\<close>; both sides are strings or \<open>undefined\<close>.
\<close>

definition differs :: "json \<Rightarrow> json \<Rightarrow> bool" where
  "differs x y = (stringify x \<noteq> stringify y)"

text \<open>
  The sheet comparison drops \<open>qInfo\<close> and replaces \<open>cells\<close> by the cells without their
  \<open>name\<close>; \<open>cells.map\<close> throws when \<open>cells\<close> is not an array.
\<close>

definition withoutCellNames :: "json \<Rightarrow> error + json" where
  "withoutCellNames p =
     (case omit [''qInfo''] p of
        JObj kvs \<Rightarrow>
          (case map_of kvs ''cells'' of
             Some (JArr cs) \<Rightarrow> Inr (JObj (setKey ''cells'' (JArr (map (omit [''name'']) cs)) kvs))
           | _ \<Rightarrow> Inl TypeError)
      | _ \<Rightarrow> Inl TypeError)"

definition varCore :: "json \<Rightarrow> json" where
  "varCore p = omit [''qInfo'', ''qMeta'', ''qIsScriptCreated''] p"

text \<open>The id of the first list element, or the empty string.\<close>

definition firstId :: "string list \<Rightarrow> string" where
  "firstId ids = (case ids of [] \<Rightarrow> [] | i # _ \<Rightarrow> i)"

definition getTargetIdIfItemIsUpdatableInCurrentApp :: "curr_app_objects \<Rightarrow> item \<Rightarrow> error + string" where
  "getTargetIdIfItemIsUpdatableInCurrentApp objs item =
     (case objs (itemType item) of
        None \<Rightarrow> Inr []
      | Some xs \<Rightarrow>
          (case itemType item of
             Script \<Rightarrow>
               bindE (filter_e (\<lambda>a. Inr (label a = label item
                                          \<and> codeScriptValue a \<noteq> codeScriptValue item)) xs)
                 (\<lambda>ys. Inr (firstId (map label ys)))
           | Sheet \<Rightarrow>
               bindE (withoutCellNames (properties item)) (\<lambda>i'.
                 bindE (filter_e (\<lambda>a. bindE (withoutCellNames (properties a)) (\<lambda>a'.
                                          andE (sameBy titleOf a item) (Inr (differs a' i')))) xs)
                   (\<lambda>ys. Inr (firstId (map itemId ys))))
           | Dimension \<Rightarrow>
               bindE (filter_e (\<lambda>a. andE (sameBy titleOf a item)
                                  (bindE (propOf ''qDim'' a) (\<lambda>x.
                                     bindE (propOf ''qDim'' item) (\<lambda>y. Inr (differs x y))))) xs)
                 (\<lambda>ys. Inr (firstId (map itemId ys)))
           | Measure \<Rightarrow>
               bindE (filter_e (\<lambda>a. andE (sameBy titleOf a item)
                                  (bindE (propOf ''qMeasure'' a) (\<lambda>x.
                                     bindE (propOf ''qMeasure'' item) (\<lambda>y. Inr (differs x y))))) xs)
                 (\<lambda>ys. Inr (firstId (map itemId ys)))
           | MasterObject \<Rightarrow>
               bindE (filter_e (\<lambda>a. andE (sameBy titleOf a item)
                                  (Inr (differs (omit [''qInfo''] (properties a))
                                                (omit [''qInfo''] (properties item))))) xs)
                 (\<lambda>ys. Inr (firstId (map itemId ys)))
           | AlternateState \<Rightarrow> Inr []
           | Variable \<Rightarrow>
               bindE (filter_e (\<lambda>a. andE (sameBy (propOf ''qName'') a item)
                                  (Inr (differs (varCore (properties a))
                                                (varCore (properties item))))) xs)
                 (\<lambda>ys. Inr (firstId (map itemId ys)))))"

subsection \<open>The status that prepareItem assigns\<close>

record item_status =
  selected :: bool
  exists :: bool
  importable :: bool
  importing :: bool
  imported :: bool
  importFailed :: bool
  updatable :: bool
  updating :: bool
  updated :: bool
  updateFailed :: bool

text \<open>
  prepareItem computes \<open>updatableTargetId\<close> first, then the status; the rest of the
  function rewrites the preview details and the search terms and touches neither.
\<close>

definition prepareItem :: "curr_app_objects \<Rightarrow> item \<Rightarrow> error + (string \<times> item_status)" where
  "prepareItem objs item =
     bindE (getTargetIdIfItemIsUpdatableInCurrentApp objs item) (\<lambda>targetId.
       bindE (doesItemExistInCurrentApp objs item) (\<lambda>ex.
         bindE (isItemImportableInCurrentApp objs item) (\<lambda>imp.
           Inr (targetId,
                \<lparr> selected = False, exists = ex, importable = imp, importing = False,
                  imported = False, importFailed = False, updatable = (targetId \<noteq> []),
                  updating = False, updated = False, updateFailed = False \<rparr>))))"

subsection \<open>Vocabulary for stating the reconciliation rules\<close>

text \<open>
  The destination items of a type, the name of a variable and "same name" as the spec
  words them: a state is named by its id, a variable by \<open>qName\<close>.
\<close>

definition destinationItems :: "curr_app_objects \<Rightarrow> item_type \<Rightarrow> item list" where
  "destinationItems objs t = (case objs t of None \<Rightarrow> [] | Some xs \<Rightarrow> xs)"

definition hasProperties :: "item \<Rightarrow> bool" where
  "hasProperties a = (properties a \<noteq> JUndefined \<and> properties a \<noteq> JNull)"

definition nameOf :: "item \<Rightarrow> json" where
  "nameOf a =
     (case properties a of
        JObj kvs \<Rightarrow> (case map_of kvs ''qName'' of None \<Rightarrow> JUndefined | Some v \<Rightarrow> v)
      | _ \<Rightarrow> JUndefined)"

definition sameName :: "item \<Rightarrow> item \<Rightarrow> bool" where
  "sameName a item =
     (case itemType item of
        AlternateState \<Rightarrow> itemId a = itemId item
      | _ \<Rightarrow> strictEq (nameOf a) (nameOf item))"

definition uniquelyNamed :: "item_type \<Rightarrow> bool" where
  "uniquelyNamed t = (t = AlternateState \<or> t = Variable)"

text \<open>
  An item is titled when reading \<open>properties.qMetaDef.title\<close> does not throw, that is
  when \<open>properties\<close> and \<open>qMetaDef\<close> are there, as they are on every sheet and master
  item the engine returns.
\<close>

definition titled :: "item \<Rightarrow> bool" where
  "titled a = (case titleOf a of Inl e \<Rightarrow> False | Inr t \<Rightarrow> True)"

definition titleValue :: "item \<Rightarrow> json" where
  "titleValue a = (case titleOf a of Inl e \<Rightarrow> JUndefined | Inr t \<Rightarrow> t)"

definition visualizationValue :: "item \<Rightarrow> json" where
  "visualizationValue a =
     (case propOf ''visualization'' a of Inl e \<Rightarrow> JUndefined | Inr t \<Rightarrow> t)"

subsection \<open>Sample items\<close>

text \<open>A variable of the given id, name and definition, and a current app holding one variable.\<close>

definition variableItem :: "string \<Rightarrow> string \<Rightarrow> string \<Rightarrow> item" where
  "variableItem qid name defn =
     \<lparr> itemId = qid, itemType = Variable, label = name,
       properties = JObj [(''qInfo'', JObj [(''qId'', JStr qid), (''qType'', JStr ''variable'')]),
                          (''qName'', JStr name),
                          (''qDefinition'', JStr defn)],
       searchTerms = defn @ '' '', codeScriptValue = [] \<rparr>"

definition variableDest :: "item \<Rightarrow> curr_app_objects" where
  "variableDest a = (\<lambda>t. if t = Variable then Some [a] else Some [])"

text \<open>
  A bar chart titled Sales with one measure, as the master-object collector returns it:
  the search terms are the joined dimensions and the joined measures, each followed by
  a blank.
\<close>

definition masterProps :: "string \<Rightarrow> string \<Rightarrow> bool \<Rightarrow> json" where
  "masterProps qid expr showTitles =
     JObj [(''qInfo'', JObj [(''qId'', JStr qid), (''qType'', JStr ''masterobject'')]),
           (''qMetaDef'', JObj [(''title'', JStr ''Sales'')]),
           (''visualization'', JStr ''barchart''),
           (''showTitles'', JBool showTitles),
           (''qHyperCubeDef'',
              JObj [(''qDimensions'', JArr []),
                    (''qMeasures'', JArr [JObj [(''qDef'', JObj [(''qDef'', JStr expr)])]])])]"

definition masterItem :: "string \<Rightarrow> string \<Rightarrow> bool \<Rightarrow> item" where
  "masterItem qid expr showTitles =
     \<lparr> itemId = qid, itemType = MasterObject, label = ''Sales'',
       properties = masterProps qid expr showTitles,
       searchTerms = '' '' @ expr @ '' '', codeScriptValue = [] \<rparr>"

definition masterDest :: "item \<Rightarrow> curr_app_objects" where
  "masterDest a = (\<lambda>t. if t = MasterObject then Some [a] else Some [])"

section \<open>Script sections\<close>

text \<open>
  The script of an app is one text; a section starts with the marker \<open>///$tab\<close> and a
  blank, the title runs to the end of that line.
\<close>

definition tabMarker :: string where
  "tabMarker = ''///$tab ''"

definition crlf :: string where
  "crlf = [CHR 0x0D, CHR 0x0A]"

text \<open>
  \<open>s.split(sep)\<close> for a separator \<open>c # cs\<close>: the pieces between the occurrences of the
  separator, found from the left, empty pieces included. With the empty separator the
  string falls into its characters.
\<close>

fun splitOn :: "char \<Rightarrow> string \<Rightarrow> string \<Rightarrow> string list" where
  "splitOn c cs [] = [[]]"
| "splitOn c cs (x # xs) =
     (if prefix (c # cs) (x # xs) then [] # splitOn c cs (drop (length cs) xs)
      else (case splitOn c cs xs of [] \<Rightarrow> [[x]] | f # fs \<Rightarrow> (x # f) # fs))"

definition splitStr :: "string \<Rightarrow> string \<Rightarrow> string list" where
  "splitStr s sep = (case sep of [] \<Rightarrow> map (\<lambda>c. [c]) s | c # cs \<Rightarrow> splitOn c cs s)"

text \<open>\<open>data.qScript.split("///$tab ").filter(Boolean)\<close> and \<open>a.split("\r\n")[0]\<close>.\<close>

definition scriptFragments :: "string \<Rightarrow> string list" where
  "scriptFragments data = filter (\<lambda>a. a \<noteq> []) (splitStr data tabMarker)"

definition firstLine :: "string \<Rightarrow> string" where
  "firstLine a = (case splitStr a crlf of [] \<Rightarrow> [] | l # ls \<Rightarrow> l)"

definition tabTitles :: "string \<Rightarrow> string list" where
  "tabTitles data = map firstLine (scriptFragments data)"

text \<open>The properties of a script item: the proxy \<open>{tab, qScript}\<close>.\<close>

record script_props =
  tab :: string
  qScript :: string

subsection \<open>script.add\<close>

text \<open>\<open>props.tab.concat(" (".concat(i, ")"))\<close>.\<close>

definition numbered :: "string \<Rightarrow> nat \<Rightarrow> string" where
  "numbered t i = t @ '' ('' @ showNat i @ '')''"

text \<open>
  The loop \<open>while (-1 !== tabs.indexOf(tab)) tab = props.tab.concat(" (".concat(++i, ")"))\<close>
  with its two variables \<open>tab\<close> and \<open>i\<close>.
\<close>

function uniqueTab :: "string list \<Rightarrow> string \<Rightarrow> string \<Rightarrow> nat \<Rightarrow> string" where
  "uniqueTab tabs propsTab t i =
     (if t \<in> set tabs then uniqueTab tabs propsTab (numbered propsTab (Suc i)) (Suc i) else t)"
  by pat_completeness auto

text \<open>
  The measure of the loop: the numbered titles beyond \<open>i\<close> that are taken. That the
  loop ends is proved with the theorems on script sections.
\<close>

definition pendingTabs :: "string list \<Rightarrow> string \<Rightarrow> nat \<Rightarrow> nat" where
  "pendingTabs tabs t i = card {n. i < n \<and> numbered t n \<in> set tabs}"

text \<open>
  script.add reads the script (\<open>data\<close> is \<open>data.qScript\<close>) and calls \<open>setScript\<close> once;
  the result is the script it passes. The promise returned is the engine's for that
  call.
\<close>

definition script_add :: "script_props \<Rightarrow> string \<Rightarrow> string" where
  "script_add props data =
     (let tabs = tabTitles data;
          t = uniqueTab tabs (tab props) (tab props) 0;
          sect = tabMarker @ t @ crlf @ qScript props
      in data @ sect)"

subsection \<open>script.update\<close>

text \<open>The objects \<open>{tab, section}\<close> that script.update builds.\<close>

record script_section =
  sectionTab :: string
  sectionText :: string

definition scriptSections :: "string \<Rightarrow> script_section list" where
  "scriptSections data =
     map (\<lambda>a. \<lparr> sectionTab = firstLine a, sectionText = tabMarker @ a \<rparr>) (scriptFragments data)"

text \<open>\<open>_.findIndex\<close>; \<open>None\<close> is \<open>-1\<close>.\<close>

fun findIndex :: "('a \<Rightarrow> bool) \<Rightarrow> 'a list \<Rightarrow> nat option" where
  "findIndex p [] = None"
| "findIndex p (x # xs) = (if p x then Some 0 else map_option Suc (findIndex p xs))"

text \<open>
  \<open>options.targetId\<close> is a title or, from updateItem for an item without target,
  \<open>false\<close> (here \<open>None\<close>), which no title equals and which concatenates as
  \<open>false\<close>.
\<close>

definition shownTarget :: "string option \<Rightarrow> string" where
  "shownTarget targetId = (case targetId of None \<Rightarrow> ''false'' | Some t \<Rightarrow> t)"

text \<open>
  script.update: \<open>Inr script\<close> is the one call \<open>setScript(script)\<close>, \<open>Inl\<close> the rejected
  promise, returned without any call of \<open>setScript\<close>.
\<close>

definition script_update :: "script_props \<Rightarrow> string option \<Rightarrow> string \<Rightarrow> error + string" where
  "script_update props targetId data =
     (let sections = scriptSections data in
      case findIndex (\<lambda>a. Some (sectionTab a) = targetId) sections of
        Some target \<Rightarrow>
          Inr (foldl (\<lambda>a b. a @ sectionText b) []
                 (sections [target := (sections ! target)
                     \<lparr> sectionText := tabMarker @ shownTarget targetId @ crlf @ qScript props \<rparr>]))
      | None \<Rightarrow>
          Inl (Rejected (''Script section not updated: could not find section with title ''
                          @ [CHR 0x27] @ shownTarget targetId @ [CHR 0x27])))"

subsection \<open>Scripts made of sections only\<close>

text \<open>\<open>pieces.join(sep)\<close>.\<close>

fun joinSep :: "string \<Rightarrow> string list \<Rightarrow> string" where
  "joinSep sep [] = []"
| "joinSep sep [x] = x"
| "joinSep sep (x # y # ys) = x @ sep @ joinSep sep (y # ys)"

text \<open>
  A script is well sectioned when it is empty or starts with a marker, and no marker is
  followed at once by another marker or by the end of the script. The script editor
  writes such scripts.
\<close>

definition wellSectioned :: "string \<Rightarrow> bool" where
  "wellSectioned data =
     (case splitStr data tabMarker of
        [] \<Rightarrow> False
      | f # fs \<Rightarrow> f = [] \<and> list_all (\<lambda>a. a \<noteq> []) fs)"

subsection \<open>Sample scripts\<close>

definition twoMains :: string where
  "twoMains = tabMarker @ ''Main'' @ crlf @ ''LOAD 1;'' @ crlf
              @ tabMarker @ ''Main (1)'' @ crlf @ ''LOAD 2;'' @ crlf"

definition threeTabs :: string where
  "threeTabs = tabMarker @ ''Main'' @ crlf @ ''LOAD 1;'' @ crlf
               @ tabMarker @ ''Extra'' @ crlf @ ''LOAD 2;'' @ crlf
               @ tabMarker @ ''Main'' @ crlf @ ''LOAD 3;'' @ crlf"

section \<open>Importers\<close>

subsection \<open>sanitizeObjectData\<close>

definition publishFields :: "string list" where
  "publishFields = [''createdDate'', ''modifiedDate'', ''published'', ''publishTime'',
                    ''approved'', ''owner'', ''sourceObject'', ''draftObject'', ''privileges'']"

text \<open>\<open>obj.k\<close> on an object.\<close>

definition fieldOf :: "string \<Rightarrow> (string \<times> json) list \<Rightarrow> json" where
  "fieldOf k kvs = (case map_of kvs k of None \<Rightarrow> JUndefined | Some v \<Rightarrow> v)"

text \<open>
  sanitizeObjectData on a property object: \<open>qMetaDef\<close> is replaced by its copy without
  the publish fields (the empty object when there was none), the result is the copy
  without \<open>qMeta\<close>.
\<close>

definition sanitizeObjectData :: "(string \<times> json) list \<Rightarrow> json" where
  "sanitizeObjectData qData =
     omit [''qMeta'']
       (JObj (setKey ''qMetaDef'' (omit publishFields (fieldOf ''qMetaDef'' qData)) qData))"

subsection \<open>The engine's variables\<close>

text \<open>
  The engine is the host's, not the extension's. Its state here is the list of the
  variables' property objects; its calls behave as the comments of the importers say.
\<close>

record engine =
  variables :: "json list"

text \<open>\<open>!! v\<close>.\<close>

definition truthy :: "json \<Rightarrow> bool" where
  "truthy v = (v \<noteq> JUndefined \<and> v \<noteq> JNull \<and> v \<noteq> JBool False \<and> v \<noteq> JNum 0 \<and> v \<noteq> JStr [])"

text \<open>\<open>v.qInfo.qId\<close>.\<close>

definition qIdOf :: "json \<Rightarrow> error + json" where
  "qIdOf v = bindE (getProp v ''qInfo'') (\<lambda>i. getProp i ''qId'')"

text \<open>
  The engine calls getVariableById and getVariableByName: the promise resolves with the
  variable, here its index, and is rejected when there is none ("Variable is not found,
  because it doesn't exist", says the \<open>catch\<close> of variable.update).
\<close>

definition getVariableById :: "string \<Rightarrow> engine \<Rightarrow> error + nat" where
  "getVariableById qid eng =
     (case findIndex (\<lambda>v. qIdOf v = Inr (JStr qid)) (variables eng) of
        None \<Rightarrow> Inl (Rejected ''Variable not found'')
      | Some k \<Rightarrow> Inr k)"

definition getVariableByName :: "json \<Rightarrow> engine \<Rightarrow> error + nat" where
  "getVariableByName name eng =
     (case name of
        JStr n \<Rightarrow>
          (case findIndex (\<lambda>v. getProp v ''qName'' = Inr (JStr n)) (variables eng) of
             None \<Rightarrow> Inl (Rejected ''Variable not found'')
           | Some k \<Rightarrow> Inr k)
      | _ \<Rightarrow> Inl (Rejected ''Variable not found''))"

text \<open>The engine call setProperties on a variable: the properties are replaced.\<close>

definition setProperties :: "nat \<Rightarrow> json \<Rightarrow> engine \<Rightarrow> (error + unit) \<times> engine" where
  "setProperties k props eng = (Inr (), eng \<lparr> variables := (variables eng) [k := props] \<rparr>)"

text \<open>
  The engine call createVariableEx: "the action may be rejected because the variable
  already exists based on name", says variable.add; otherwise the variable is created.
\<close>

definition createVariableEx :: "json \<Rightarrow> engine \<Rightarrow> (error + unit) \<times> engine" where
  "createVariableEx props eng =
     (if \<exists>v\<in>set (variables eng). getProp v ''qName'' = getProp props ''qName''
      then (Inl (Rejected ''Variable already exists''), eng)
      else (Inr (), eng \<lparr> variables := variables eng @ [props] \<rparr>))"

subsection \<open>variable.add and variable.update\<close>

text \<open>
  The properties of a variable item are an object; \<open>undefined\<close> and \<open>null\<close> throw at
  the first property access, and nothing else reaches these functions.
\<close>

definition variable_add :: "json \<Rightarrow> engine \<Rightarrow> (error + unit) \<times> engine" where
  "variable_add props eng =
     (case props of
        JObj kvs \<Rightarrow> createVariableEx (sanitizeObjectData (deleteKey ''qIsScriptCreated'' kvs)) eng
      | _ \<Rightarrow> (Inl TypeError, eng))"

text \<open>
  \<open>options.targetId\<close> as a condition: a non-empty id is true; \<open>false\<close> (\<open>None\<close>) and
  the empty string are false.
\<close>

definition truthyId :: "string option \<Rightarrow> bool" where
  "truthyId targetId = (case targetId of None \<Rightarrow> False | Some t \<Rightarrow> t \<noteq> [])"

text \<open>
  \<open>props.qInfo.qId = targetObject.properties.qInfo.qId\<close>: throws when \<open>props.qInfo\<close>
  is missing; on a primitive the assignment has no effect.
\<close>

definition keepTargetId :: "json \<Rightarrow> (string \<times> json) list \<Rightarrow> error + (string \<times> json) list" where
  "keepTargetId target kvs =
     (case fieldOf ''qInfo'' kvs of
        JUndefined \<Rightarrow> Inl TypeError
      | JNull \<Rightarrow> Inl TypeError
      | JObj info \<Rightarrow>
          bindE (qIdOf target) (\<lambda>i. Inr (setKey ''qInfo'' (JObj (setKey ''qId'' i info)) kvs))
      | _ \<Rightarrow> bindE (qIdOf target) (\<lambda>i. Inr kvs))"

text \<open>
  variable.update. Every \<open>Inl\<close> of the chain up to \<open>setProperties\<close> ends in the
  \<open>catch\<close>, which calls variable.add with the properties as changed so far.
\<close>

definition variable_update :: "json \<Rightarrow> string option \<Rightarrow> engine \<Rightarrow> (error + unit) \<times> engine" where
  "variable_update props targetId eng =
     (case props of
        JObj kvs \<Rightarrow>
          (case (if truthyId targetId then getVariableById (the targetId) eng
                 else getVariableByName (fieldOf ''qName'' kvs) eng) of
             Inl e \<Rightarrow> variable_add props eng
           | Inr k \<Rightarrow>
               (let target = variables eng ! k in
                case keepTargetId target kvs of
                  Inl e \<Rightarrow> variable_add props eng
                | Inr kvs1 \<Rightarrow>
                    (case getProp target ''qIsScriptCreated'' of
                       Inl e \<Rightarrow> variable_add (JObj kvs1) eng
                     | Inr c \<Rightarrow>
                         (let kvs2 = setKey ''qIsScriptCreated'' (JBool (truthy c)) kvs1 in
                          case setProperties k (JObj kvs2) eng of
                            (Inl e, eng') \<Rightarrow> variable_add (JObj kvs2) eng'
                          | (Inr u, eng') \<Rightarrow> (Inr u, eng')))))
      | _ \<Rightarrow> (Inl TypeError, eng))"

subsection \<open>updateSingleItem, importSingleItem and updateItem\<close>

text \<open>
  The status of the item before and after; \<open>updater\<close> and \<open>importer\<close> are the callbacks,
  run on the engine.
\<close>

definition updateSingleItem ::
  "item_status \<Rightarrow> (engine \<Rightarrow> (error + unit) \<times> engine) \<Rightarrow> engine \<Rightarrow> item_status \<times> engine" where
  "updateSingleItem st updater eng =
     (if \<not> updated st \<and> \<not> updateFailed st \<and> updatable st
      then (let st1 = st \<lparr> updating := True \<rparr> in
            case updater eng of
              (Inr u, eng') \<Rightarrow>
                (st1 \<lparr> exists := True, updating := False, updated := True, updatable := False \<rparr>,
                 eng')
            | (Inl e, eng') \<Rightarrow> (st1 \<lparr> updating := False, updateFailed := True \<rparr>, eng'))
      else (st, eng))"

definition importSingleItem ::
  "item_status \<Rightarrow> (engine \<Rightarrow> (error + unit) \<times> engine) \<Rightarrow> engine \<Rightarrow> item_status \<times> engine" where
  "importSingleItem st importer eng =
     (if \<not> imported st \<and> \<not> importFailed st \<and> importable st
      then (let st1 = st \<lparr> importing := True \<rparr> in
            case importer eng of
              (Inr u, eng') \<Rightarrow>
                (st1 \<lparr> exists := True, importing := False, imported := True \<rparr>, eng')
            | (Inl e, eng') \<Rightarrow> (st1 \<lparr> importing := False, importFailed := True \<rparr>, eng'))
      else (st, eng))"

text \<open>\<open>item.updatableTargetId || false\<close>.\<close>

definition targetIdOption :: "string \<Rightarrow> string option" where
  "targetIdOption updatableTargetId =
     (if updatableTargetId = [] then None else Some updatableTargetId)"

text \<open>updateItem for a variable item.\<close>

definition updateItem_variable ::
  "item \<Rightarrow> string \<Rightarrow> item_status \<Rightarrow> engine \<Rightarrow> item_status \<times> engine" where
  "updateItem_variable item updatableTargetId st eng =
     updateSingleItem st (variable_update (properties item) (targetIdOption updatableTargetId)) eng"

subsection \<open>sheet.add and sheet.update\<close>

text \<open>
  The options of sheet.add: \<open>optSheetObjectsGiven\<close> says whether \<open>options.sheetObjects\<close>
  is there, \<open>optSheetsMaxRank\<close> is a number or \<open>None\<close> for a missing value or NaN,
  \<open>optImportAlternateStates\<close> defaults to true.
\<close>

record sheet_options =
  optTargetId :: "string option"
  optAppId :: string
  optSheetObjectsGiven :: bool
  optImportAlternateStates :: bool
  optSheetsMaxRank :: "int option"

text \<open>
  sheet.add writes the properties of the sheet once: \<open>setProperties(props)\<close> on the
  target object, or \<open>createObject(props)\<close>. Beside that write it adds the alternate
  state of the sheet, loads the cell objects from the origin app and stores them as the
  children of the property tree; none of these calls changes \<open>props\<close>, and they are
  taken to resolve.
\<close>

datatype sheet_write = SetPropertiesOf string json | CreateObject json

fun writtenProps :: "sheet_write \<Rightarrow> json" where
  "writtenProps (SetPropertiesOf t p) = p"
| "writtenProps (CreateObject p) = p"

definition isArray :: "json \<Rightarrow> bool" where
  "isArray v = (case v of JArr xs \<Rightarrow> True | _ \<Rightarrow> False)"

text \<open>\<open>if (options.sheetsMaxRank)\<close>: zero and NaN are false.\<close>

definition truthyNumber :: "int option \<Rightarrow> bool" where
  "truthyNumber n = (case n of None \<Rightarrow> False | Some m \<Rightarrow> m \<noteq> 0)"

definition sheet_add :: "json \<Rightarrow> sheet_options \<Rightarrow> error + sheet_write" where
  "sheet_add props options =
     (case props of
        JObj kvs \<Rightarrow>
          (if \<not> optSheetObjectsGiven options \<and> optAppId options \<noteq> []
              \<and> \<not> isArray (fieldOf ''cells'' kvs)
           then Inl TypeError
           else if truthyId (optTargetId options)
             then Inr (SetPropertiesOf (the (optTargetId options)) props)
             else if truthyNumber (optSheetsMaxRank options)
               then Inr (CreateObject
                      (JObj (setKey ''rank'' (JNum (the (optSheetsMaxRank options) + 1)) kvs)))
               else Inr (CreateObject props))
      | _ \<Rightarrow> Inl TypeError)"

definition sheet_update :: "json \<Rightarrow> sheet_options \<Rightarrow> error + sheet_write" where
  "sheet_update props options =
     (if truthyId (optTargetId options) then sheet_add props options
      else Inl (Rejected ''Sheet not updated: missing id of the target sheet''))"

subsection \<open>removePublishMetaData and addSheet of the main file\<close>

text \<open>
  The main file \<open>src/qs-emergo-app-object-importer.js\<close> adds a sheet by itself, without
  the importers. Its removePublishMetaData deletes the nine publish fields from
  \<open>data.qMetaDef\<close>, then \<open>data.qMeta\<close>. Reading a field of \<open>data.qMetaDef\<close> throws when
  \<open>qMetaDef\<close> is missing; \<open>delete\<close> on a value that is no object removes nothing.
\<close>

definition removePublishMetaData :: "(string \<times> json) list \<Rightarrow> error + (string \<times> json) list" where
  "removePublishMetaData data =
     (case fieldOf ''qMetaDef'' data of
        JUndefined \<Rightarrow> Inl TypeError
      | JNull \<Rightarrow> Inl TypeError
      | JObj m \<Rightarrow>
          Inr (deleteKey ''qMeta''
                 (setKey ''qMetaDef'' (JObj (fold deleteKey publishFields m)) data))
      | _ \<Rightarrow> Inr (deleteKey ''qMeta'' data))"

text \<open>
  \<open>qUtil.extend(target, source, ...)\<close> of the host copies the properties of each source
  onto the target, from left to right, a later source overwriting an earlier one. A
  source that is \<open>undefined\<close> or \<open>null\<close> is skipped; the sources here are property
  objects or missing, so any other value adds nothing.
\<close>

definition extendWith :: "(string \<times> json) list \<Rightarrow> json \<Rightarrow> (string \<times> json) list" where
  "extendWith target source =
     (case source of
        JObj kvs \<Rightarrow> fold (\<lambda>(k, v). setKey k v) kvs target
      | _ \<Rightarrow> target)"

definition qUtil_extend :: "(string \<times> json) list \<Rightarrow> json list \<Rightarrow> (string \<times> json) list" where
  "qUtil_extend target sources = fold (\<lambda>source t. extendWith t source) sources target"

text \<open>
  \<open>$scope.addSheet(item)\<close> for an item that is not yet added, failed or existing, once
  the alternate states are dealt with: \<open>qData\<close> is \<open>item.qData\<close>, the properties of the
  sheet as the collector of that file stored them, \<open>sheetCount\<close> is
  \<open>currAppObjects.sheet.length\<close>. The result is the call of \<open>createObject(data)\<close>;
  the property tree set afterwards takes the children of the sheet and leaves \<open>data\<close>
  as it is.
\<close>

definition addSheet :: "(string \<times> json) list \<Rightarrow> nat \<Rightarrow> error + sheet_write" where
  "addSheet qData sheetCount =
     (let extended = qUtil_extend [(''qMetaDef'', fieldOf ''qMeta'' qData)]
                       [fieldOf ''qData'' qData, JObj qData];
          ranked = setKey ''rank'' (JNum (int sheetCount)) extended
      in bindE (removePublishMetaData ranked) (\<lambda>data.
           case fieldOf ''qInfo'' data of
             JUndefined \<Rightarrow> Inl TypeError
           | JNull \<Rightarrow> Inl TypeError
           | JObj qInfo \<Rightarrow>
               Inr (CreateObject (JObj (setKey ''qInfo'' (JObj (deleteKey ''qId'' qInfo)) data)))
           | _ \<Rightarrow> Inr (CreateObject (JObj data))))"

subsection \<open>importItem for a sheet\<close>

text \<open>
  \<open>Math.max(a, b.properties.rank)\<close>: \<open>None\<close> is NaN. The rank of a sheet is a number
  or missing; strings, arrays and objects are not ranks and count as NaN here.
\<close>

fun toNumber :: "json \<Rightarrow> int option" where
  "toNumber (JNum n) = Some n"
| "toNumber JNull = Some 0"
| "toNumber (JBool b) = Some (if b then 1 else 0)"
| "toNumber v = None"

definition mathMax :: "int option \<Rightarrow> int option \<Rightarrow> int option" where
  "mathMax a b = (case (a, b) of (Some x, Some y) \<Rightarrow> Some (max x y) | _ \<Rightarrow> None)"

text \<open>\<open>currAppObjects.sheet.reduce(function(a, b) {...}, 0)\<close> from the accumulator \<open>a\<close> on.\<close>

fun reduceMaxRank :: "int option \<Rightarrow> item list \<Rightarrow> error + int option" where
  "reduceMaxRank a [] = Inr a"
| "reduceMaxRank a (b # bs) =
     bindE (propOf ''rank'' b) (\<lambda>r. reduceMaxRank (mathMax a (toNumber r)) bs)"

text \<open>
  The importer that importItem hands to importSingleItem, for a sheet item:
  \<open>importers.sheet.add(item.properties, {appId, sheetsMaxRank})\<close>.
\<close>

definition importItem_sheet :: "item list \<Rightarrow> string \<Rightarrow> item \<Rightarrow> error + sheet_write" where
  "importItem_sheet currSheets appDataId item =
     bindE (reduceMaxRank (Some 0) currSheets) (\<lambda>m.
       sheet_add (properties item)
         \<lparr> optTargetId = None, optAppId = appDataId, optSheetObjectsGiven = False,
           optImportAlternateStates = True, optSheetsMaxRank = m \<rparr>)"

text \<open>The rank of a sheet when it is a number.\<close>

definition rankOf :: "item \<Rightarrow> int option" where
  "rankOf b =
     (case properties b of
        JObj kvs \<Rightarrow> (case map_of kvs ''rank'' of Some (JNum n) \<Rightarrow> Some n | _ \<Rightarrow> None)
      | _ \<Rightarrow> None)"

subsection \<open>Sample objects\<close>

text \<open>
  The status of the variable vToday after classification against a destination that
  held a variable vToday with another definition.
\<close>

definition staleStatus :: item_status where
  "staleStatus = \<lparr> selected = False, exists = False, importable = False, importing = False,
                  imported = False, importFailed = False, updatable = True,
                  updating = False, updated = False, updateFailed = False \<rparr>"

definition sheetProps :: "string \<Rightarrow> string \<Rightarrow> int \<Rightarrow> json" where
  "sheetProps qid title r =
     JObj [(''qInfo'', JObj [(''qId'', JStr qid), (''qType'', JStr ''sheet'')]),
           (''qMetaDef'', JObj [(''title'', JStr title), (''description'', JStr [])]),
           (''rank'', JNum r),
           (''columns'', JNum 24),
           (''rows'', JNum 12),
           (''cells'', JArr [])]"

definition sheetItem :: "string \<Rightarrow> string \<Rightarrow> int \<Rightarrow> item" where
  "sheetItem qid title r =
     \<lparr> itemId = qid, itemType = Sheet, label = title, properties = sheetProps qid title r,
       searchTerms = [], codeScriptValue = [] \<rparr>"

definition publishedMeta :: "string \<Rightarrow> json" where
  "publishedMeta title =
     JObj [(''title'', JStr title),
           (''createdDate'', JStr ''2023-02-12T09:00:00.000Z''),
           (''published'', JBool True),
           (''owner'', JStr ''ann'')]"

definition publishedSheet :: "(string \<times> json) list" where
  "publishedSheet =
     [(''qInfo'', JObj [(''qId'', JStr ''s1''), (''qType'', JStr ''sheet'')]),
      (''qMetaDef'', publishedMeta ''Sales''),
      (''rank'', JNum 0),
      (''cells'', JArr []),
      (''qMeta'', JObj [(''privileges'', JArr [JStr ''read''])])]"

definition publishedVariable :: "(string \<times> json) list" where
  "publishedVariable =
     [(''qInfo'', JObj [(''qId'', JStr ''v1''), (''qType'', JStr ''variable'')]),
      (''qMetaDef'', publishedMeta ''vToday''),
      (''qName'', JStr ''vToday''),
      (''qDefinition'', JStr ''=Today()''),
      (''qIsScriptCreated'', JBool True),
      (''qMeta'', JObj [(''privileges'', JArr [JStr ''read''])])]"

definition importOptions :: "int option \<Rightarrow> sheet_options" where
  "importOptions m =
     \<lparr> optTargetId = None, optAppId = ''app1'', optSheetObjectsGiven = False,
       optImportAlternateStates = True, optSheetsMaxRank = m \<rparr>"

section \<open>Values of a field in a set definition\<close>







subsection \<open>Field names without special characters\<close>









section \<open>openApp and the list of opened apps\<close>

text \<open>
  Promises are objects with an identity: the store \<open>promises\<close> holds their states and a
  promise is its index there. \<open>apps\<close> is the object \<open>_apps\<close>, from app identifier to
  promise, with identifiers that are no property names of \<open>Object.prototype\<close>.
  \<open>engineOpens\<close> lists the calls of \<open>qlik.openApp\<close>. An app object is given by its id.
  importers.js and util/app-info.js define the same function, each over a list of its
  own.
\<close>

datatype promise_state = Pending | Fulfilled string | Failed string

datatype open_arg = AppId string | AppObject string

record app_cache =
  apps :: "string \<rightharpoonup> nat"
  promises :: "promise_state list"
  engineOpens :: "string list"

text \<open>A new promise in the given state.\<close>

definition newPromise :: "promise_state \<Rightarrow> app_cache \<Rightarrow> nat \<times> app_cache" where
  "newPromise p c = (length (promises c), c \<lparr> promises := promises c @ [p] \<rparr>)"

text \<open>\<open>if (! _apps.hasOwnProperty(currApp.id)) _apps[currApp.id] = $q.resolve(currApp)\<close>.\<close>

definition setCurrentApp :: "string \<Rightarrow> app_cache \<Rightarrow> app_cache" where
  "setCurrentApp currAppId c =
     (if currAppId \<in> dom (apps c) then c
      else (case newPromise (Fulfilled currAppId) c of
              (r, c') \<Rightarrow> c' \<lparr> apps := (apps c') (currAppId \<mapsto> r) \<rparr>))"

text \<open>
  \<open>if (! _apps.hasOwnProperty(appId))\<close>: the engine opens the app, and the promise stored
  is the new promise that \<open>then\<close> returns, pending until the app is open and the delay
  has passed.
\<close>

definition loadRequestedApp :: "string \<Rightarrow> app_cache \<Rightarrow> app_cache" where
  "loadRequestedApp appId c =
     (if appId \<in> dom (apps c) then c
      else (case newPromise Pending (c \<lparr> engineOpens := engineOpens c @ [appId] \<rparr>) of
              (r, c') \<Rightarrow> c' \<lparr> apps := (apps c') (appId \<mapsto> r) \<rparr>))"

text \<open>
  openApp returns a promise and leaves a list of opened apps. An empty identifier is
  rejected, an app object is resolved at once, each with a promise of its own.
\<close>

definition openApp :: "string \<Rightarrow> open_arg \<Rightarrow> app_cache \<Rightarrow> nat \<times> app_cache" where
  "openApp currAppId arg c =
     (case arg of
        AppObject i \<Rightarrow> newPromise (Fulfilled i) c
      | AppId appId \<Rightarrow>
          if appId = []
          then newPromise (Failed (''App with id '' @ [CHR 0x27, CHR 0x27] @ '' not found'')) c
          else (let c2 = loadRequestedApp appId (setCurrentApp currAppId c)
                in (the (apps c2 appId), c2)))"

text \<open>
  A pending promise settles; a promise that has settled keeps its state.
\<close>

definition settle :: "nat \<Rightarrow> promise_state \<Rightarrow> app_cache \<Rightarrow> app_cache" where
  "settle r outcome c =
     (if r < length (promises c) \<and> promises c ! r = Pending
      then c \<lparr> promises := (promises c) [r := outcome] \<rparr> else c)"

text \<open>
  The states that can follow a state \<open>c\<close>: promises settle and openApp is called, with
  any argument, any number of times.
\<close>

inductive later :: "string \<Rightarrow> app_cache \<Rightarrow> app_cache \<Rightarrow> bool"
  for currAppId :: string and c :: app_cache where
  now: "later currAppId c c"
| settled: "later currAppId c c' \<Longrightarrow> later currAppId c (settle r outcome c')"
| called: "later currAppId c c' \<Longrightarrow> later currAppId c (snd (openApp currAppId arg c'))"

definition emptyCache :: app_cache where
  "emptyCache = \<lparr> apps = Map.empty, promises = [], engineOpens = [] \<rparr>"

section \<open>Reconciliation: what the status flags say\<close>

lemma some_e_total:
  "\<forall>x\<in>set xs. p x = Inr (q x) \<Longrightarrow> some_e p xs = Inr (\<exists>x\<in>set xs. q x)"
  by (induction xs) auto

lemma every_e_total:
  "\<forall>x\<in>set xs. p x = Inr (q x) \<Longrightarrow> every_e p xs = Inr (\<forall>x\<in>set xs. q x)"
  by (induction xs) auto

lemma filter_e_total:
  "\<forall>x\<in>set xs. p x = Inr (q x) \<Longrightarrow> filter_e p xs = Inr (filter q xs)"
  by (induction xs) auto

lemma propOf_qName: "hasProperties a \<Longrightarrow> propOf ''qName'' a = Inr (nameOf a)"
  by (cases "properties a") (auto simp: hasProperties_def propOf_def nameOf_def)

lemma sameBy_qName:
  "hasProperties a \<Longrightarrow> hasProperties item \<Longrightarrow>
   sameBy (propOf ''qName'') a item = Inr (strictEq (nameOf a) (nameOf item))"
  by (simp add: sameBy_def bindE_def propOf_qName)

text \<open>
  C1. For an alternate state and for a variable, importable is false exactly when a
  destination item of that type has the same name (the id of a state, the \<open>qName\<close> of a
  variable; the definition of a variable is not looked at). For every other type
  importable is true. Variables are taken as the collector returns them, each with a
  properties object.
\<close>

theorem importable_iff_no_same_name:
  assumes wf: "itemType item = Variable \<Longrightarrow>
                 \<forall>a\<in>set (item # destinationItems objs Variable). hasProperties a"
  shows "isItemImportableInCurrentApp objs item =
           Inr (if uniquelyNamed (itemType item)
                then \<not> (\<exists>a\<in>set (destinationItems objs (itemType item)). sameName a item)
                else True)"
proof (cases "objs (itemType item)")
  case None
  then show ?thesis
    by (simp add: isItemImportableInCurrentApp_def destinationItems_def)
next
  case (Some xs)
  show ?thesis
  proof (cases "itemType item")
    case AlternateState
    have "every_e (\<lambda>a. Inr (itemId a \<noteq> itemId item)) xs
            = Inr (\<forall>a\<in>set xs. itemId a \<noteq> itemId item)"
      by (rule every_e_total) simp
    with Some AlternateState show ?thesis
      by (simp add: isItemImportableInCurrentApp_def destinationItems_def sameName_def
            uniquelyNamed_def)
  next
    case Variable
    with wf Some have h: "hasProperties item" "\<forall>a\<in>set xs. hasProperties a"
      by (simp_all add: destinationItems_def)
    have "every_e (\<lambda>a. bindE (sameBy (propOf ''qName'') a item) (\<lambda>b. Inr (\<not> b))) xs
            = Inr (\<forall>a\<in>set xs. \<not> strictEq (nameOf a) (nameOf item))"
      by (rule every_e_total) (use h in \<open>simp add: sameBy_qName bindE_def\<close>)
    with Some Variable show ?thesis
      by (simp add: isItemImportableInCurrentApp_def destinationItems_def sameName_def
            uniquelyNamed_def)
  qed (use Some in \<open>simp_all add: isItemImportableInCurrentApp_def uniquelyNamed_def\<close>)
qed

text \<open>
  The rule at work: the destination holds a variable vToday defined as \<open>=Now()\<close>; the
  source variable vToday defined as \<open>=Today()\<close> is not importable.
\<close>

theorem importable_iff_no_same_name_witness:
  "hasProperties (variableItem ''s1'' ''vToday'' ''=Today()'')
   \<and> destinationItems (variableDest (variableItem ''d1'' ''vToday'' ''=Now()'')) Variable
        = [variableItem ''d1'' ''vToday'' ''=Now()'']
   \<and> hasProperties (variableItem ''d1'' ''vToday'' ''=Now()'')
   \<and> isItemImportableInCurrentApp (variableDest (variableItem ''d1'' ''vToday'' ''=Now()''))
        (variableItem ''s1'' ''vToday'' ''=Today()'') = Inr False"
proof -
  have h: "\<forall>a\<in>set (variableItem ''s1'' ''vToday'' ''=Today()''
              # destinationItems (variableDest (variableItem ''d1'' ''vToday'' ''=Now()'')) Variable).
              hasProperties a"
    by (simp add: destinationItems_def variableDest_def variableItem_def hasProperties_def)
  show ?thesis
    using h importable_iff_no_same_name
            [of "variableItem ''s1'' ''vToday'' ''=Today()''"
                "variableDest (variableItem ''d1'' ''vToday'' ''=Now()'')", OF h]
    by (simp add: destinationItems_def variableDest_def variableItem_def sameName_def
          nameOf_def uniquelyNamed_def)
qed

lemma titled_titleOf: "titled a \<Longrightarrow> titleOf a = Inr (titleValue a)"
  by (simp add: titled_def titleValue_def split: sum.splits)

lemma titled_propOf: "titled a \<Longrightarrow> \<exists>v. propOf k a = Inr v"
  by (cases "properties a") (simp_all add: titled_def titleOf_def propOf_def bindE_def)

lemma sameBy_title:
  "titled a \<Longrightarrow> titled item \<Longrightarrow>
   sameBy titleOf a item = Inr (strictEq (titleValue a) (titleValue item))"
  by (simp add: sameBy_def bindE_def titled_titleOf)

lemma sameBy_visualization:
  "titled a \<Longrightarrow> titled item \<Longrightarrow>
   sameBy (propOf ''visualization'') a item
     = Inr (strictEq (visualizationValue a) (visualizationValue item))"
  using titled_propOf [of a "''visualization''"] titled_propOf [of item "''visualization''"]
  by (auto simp: sameBy_def bindE_def visualizationValue_def)

lemma firstId_filter:
  assumes "a \<in> set xs" "q a" "\<forall>b\<in>set xs. itemId b \<noteq> []"
  shows "firstId (map itemId (filter q xs)) \<noteq> []"
proof (cases "filter q xs")
  case Nil
  with assms show ?thesis by (auto simp: filter_empty_conv)
next
  case (Cons y ys)
  then have "y \<in> set (filter q xs)" by simp
  then have "y \<in> set xs" by simp
  with assms Cons show ?thesis by (simp add: firstId_def)
qed

lemmas reconcile_defs =
  prepareItem_def getTargetIdIfItemIsUpdatableInCurrentApp_def doesItemExistInCurrentApp_def
  isItemImportableInCurrentApp_def bindE_def andE_def sameBy_def titleOf_def propOf_def
  differs_def firstId_def quoteStr_def escapeChar_def

text \<open>
  C2, as stated, fails. The destination holds the bar chart Sales with the measure
  Sum(Cost); the source bar chart Sales has the measure Sum(Sales). Title and
  visualization type match and the properties differ, yet the item does not exist: the
  search terms differ.
\<close>

theorem masterObject_flags_counterexample:
  "sameBy titleOf (masterItem ''dst1'' ''Sum(Cost)'' True) (masterItem ''src1'' ''Sum(Sales)'' True)
     = Inr True
   \<and> sameBy (propOf ''visualization'') (masterItem ''dst1'' ''Sum(Cost)'' True)
        (masterItem ''src1'' ''Sum(Sales)'' True) = Inr True
   \<and> properties (masterItem ''dst1'' ''Sum(Cost)'' True)
        \<noteq> properties (masterItem ''src1'' ''Sum(Sales)'' True)
   \<and> prepareItem (masterDest (masterItem ''dst1'' ''Sum(Cost)'' True))
        (masterItem ''src1'' ''Sum(Sales)'' True)
     = Inr (''dst1'',
            \<lparr> selected = False, exists = False, importable = True, importing = False,
              imported = False, importFailed = False, updatable = True,
              updating = False, updated = False, updateFailed = False \<rparr>)"
  by (simp add: reconcile_defs masterDest_def masterItem_def masterProps_def)

text \<open>
  C2, amended. For a master object whose title, visualization type and search terms
  match a destination master object and whose properties without \<open>qInfo\<close> serialise
  differently from that object's, the status has exists, updatable and importable all
  true. Master objects are taken as the collector returns them: titled, with a
  non-empty id.
\<close>

theorem masterObject_flags_independent:
  assumes ty: "itemType item = MasterObject"
    and dest: "objs MasterObject = Some xs"
    and wf: "\<forall>b\<in>set (item # xs). titled b"
    and ids: "\<forall>b\<in>set xs. itemId b \<noteq> []"
    and a: "a \<in> set xs"
    and title: "strictEq (titleValue a) (titleValue item)"
    and vis: "strictEq (visualizationValue a) (visualizationValue item)"
    and terms: "searchTerms a = searchTerms item"
    and diff: "differs (omit [''qInfo''] (properties a)) (omit [''qInfo''] (properties item))"
  shows "\<exists>targetId st. prepareItem objs item = Inr (targetId, st)
           \<and> exists st \<and> updatable st \<and> importable st"
proof -
  let ?q = "\<lambda>b. strictEq (titleValue b) (titleValue item)
                \<and> differs (omit [''qInfo''] (properties b)) (omit [''qInfo''] (properties item))"
  let ?r = "\<lambda>b. strictEq (titleValue b) (titleValue item)
                \<and> strictEq (visualizationValue b) (visualizationValue item)
                \<and> searchTerms b = searchTerms item"
  have f: "filter_e (\<lambda>b. andE (sameBy titleOf b item)
               (Inr (differs (omit [''qInfo''] (properties b))
                             (omit [''qInfo''] (properties item))))) xs = Inr (filter ?q xs)"
    by (rule filter_e_total) (use wf in \<open>simp add: sameBy_title andE_def bindE_def\<close>)
  have s: "some_e (\<lambda>b. andE (sameBy titleOf b item)
               (andE (sameBy (propOf ''visualization'') b item)
                     (Inr (searchTerms b = searchTerms item)))) xs = Inr (\<exists>b\<in>set xs. ?r b)"
    by (rule some_e_total)
       (use wf in \<open>simp add: sameBy_title sameBy_visualization andE_def bindE_def\<close>)
  have t: "getTargetIdIfItemIsUpdatableInCurrentApp objs item
             = Inr (firstId (map itemId (filter ?q xs)))"
    using ty dest f by (simp add: getTargetIdIfItemIsUpdatableInCurrentApp_def bindE_def)
  have e: "doesItemExistInCurrentApp objs item = Inr True"
    using ty dest s a title vis terms by (auto simp: doesItemExistInCurrentApp_def)
  have i: "isItemImportableInCurrentApp objs item = Inr True"
    using ty dest by (simp add: isItemImportableInCurrentApp_def)
  have n: "firstId (map itemId (filter ?q xs)) \<noteq> []"
    using a title diff ids by (intro firstId_filter [of a]) simp_all
  show ?thesis
    using t e i n by (simp add: prepareItem_def bindE_def)
qed

text \<open>
  The three flags together: the destination bar chart Sales differs from the source one
  in \<open>showTitles\<close> only.
\<close>

theorem masterObject_flags_independent_witness:
  "itemType (masterItem ''src1'' ''Sum(Sales)'' True) = MasterObject
   \<and> masterDest (masterItem ''dst1'' ''Sum(Sales)'' False) MasterObject
        = Some [masterItem ''dst1'' ''Sum(Sales)'' False]
   \<and> titled (masterItem ''src1'' ''Sum(Sales)'' True)
   \<and> titled (masterItem ''dst1'' ''Sum(Sales)'' False)
   \<and> searchTerms (masterItem ''dst1'' ''Sum(Sales)'' False)
        = searchTerms (masterItem ''src1'' ''Sum(Sales)'' True)
   \<and> differs (omit [''qInfo''] (properties (masterItem ''dst1'' ''Sum(Sales)'' False)))
              (omit [''qInfo''] (properties (masterItem ''src1'' ''Sum(Sales)'' True)))
   \<and> (\<exists>targetId st.
         prepareItem (masterDest (masterItem ''dst1'' ''Sum(Sales)'' False))
           (masterItem ''src1'' ''Sum(Sales)'' True) = Inr (targetId, st)
         \<and> exists st \<and> updatable st \<and> importable st)"
proof -
  let ?a = "masterItem ''dst1'' ''Sum(Sales)'' False"
  let ?item = "masterItem ''src1'' ''Sum(Sales)'' True"
  have ty: "itemType ?item = MasterObject"
    by (simp add: masterItem_def)
  have dest: "masterDest ?a MasterObject = Some [?a]"
    by (simp add: masterDest_def)
  have wf: "\<forall>b\<in>set (?item # [?a]). titled b"
    by (simp add: titled_def titleOf_def bindE_def masterItem_def masterProps_def)
  have ids: "\<forall>b\<in>set [?a]. itemId b \<noteq> []"
    by (simp add: masterItem_def)
  have a: "?a \<in> set [?a]"
    by simp
  have title: "strictEq (titleValue ?a) (titleValue ?item)"
    by (simp add: titleValue_def titleOf_def bindE_def masterItem_def masterProps_def)
  have vis: "strictEq (visualizationValue ?a) (visualizationValue ?item)"
    by (simp add: visualizationValue_def propOf_def masterItem_def masterProps_def)
  have terms: "searchTerms ?a = searchTerms ?item"
    by (simp add: masterItem_def)
  have diff: "differs (omit [''qInfo''] (properties ?a)) (omit [''qInfo''] (properties ?item))"
    by (simp add: differs_def masterItem_def masterProps_def quoteStr_def escapeChar_def)
  from masterObject_flags_independent
         [where item = ?item and objs = "masterDest ?a" and xs = "[?a]" and a = ?a,
          OF ty dest wf ids a title vis terms diff]
       ty dest wf terms diff
  show ?thesis by simp
qed

section \<open>Script sections: adding and updating\<close>

subsection \<open>The loop of script.add ends\<close>

text \<open>
  Two different counters give two different titles, so only finitely many numbered
  titles are taken, and each round of the loop leaves one of them behind.
\<close>

lemma digitChar_inj: "digitChar a = digitChar b \<Longrightarrow> a < 10 \<Longrightarrow> b < 10 \<Longrightarrow> a = b"
  by (simp add: digitChar_def split: if_splits) arith

lemma showNat_nonempty: "showNat n \<noteq> []"
  by (subst showNat.simps) simp

lemma showNat_inj: "showNat n = showNat m \<Longrightarrow> n = m"
proof (induction n arbitrary: m rule: showNat.induct)
  case (1 n)
  show ?case
  proof (cases "n < 10")
    case True
    show ?thesis
    proof (cases "m < 10")
      case m: True
      from "1.prems" True m have "digitChar n = digitChar m"
        by (simp add: showNat.simps [of n] showNat.simps [of m])
      then show ?thesis using True m by (rule digitChar_inj)
    next
      case m: False
      from "1.prems" True m have "[digitChar n] = showNat (m div 10) @ [digitChar (m mod 10)]"
        by (simp add: showNat.simps [of n] showNat.simps [of m])
      then have "showNat (m div 10) = []" by (simp add: Cons_eq_append_conv)
      then show ?thesis by (simp add: showNat_nonempty)
    qed
  next
    case False
    show ?thesis
    proof (cases "m < 10")
      case m: True
      from "1.prems" False m have "showNat (n div 10) @ [digitChar (n mod 10)] = [digitChar m]"
        by (simp add: showNat.simps [of n] showNat.simps [of m])
      then have "showNat (n div 10) = []" by (simp add: append_eq_Cons_conv)
      then show ?thesis by (simp add: showNat_nonempty)
    next
      case m: False
      from "1.prems" False m
      have eq: "showNat (n div 10) = showNat (m div 10)"
        "digitChar (n mod 10) = digitChar (m mod 10)"
        by (simp_all add: showNat.simps [of n] showNat.simps [of m])
      from "1.IH" [OF False eq(1)] have d: "n div 10 = m div 10" .
      from eq(2) have r: "n mod 10 = m mod 10"
        by (rule digitChar_inj) simp_all
      from d r show ?thesis by (metis div_mult_mod_eq)
    qed
  qed
qed

lemma numbered_inj: "numbered t i = numbered t j \<Longrightarrow> i = j"
  by (simp add: numbered_def showNat_inj)

lemma finite_numbered: "finite {n. numbered t n \<in> set tabs}"
proof -
  have "inj (numbered t)" by (rule injI) (rule numbered_inj)
  then have "finite (numbered t -` set tabs)" by (intro finite_vimageI) simp_all
  then show ?thesis by (simp add: vimage_def)
qed

lemma pendingTabs_Suc:
  "pendingTabs tabs t i
     = pendingTabs tabs t (Suc i) + (if numbered t (Suc i) \<in> set tabs then 1 else 0)"
proof -
  let ?A = "{n. Suc i < n \<and> numbered t n \<in> set tabs}"
  have fin: "finite ?A" using finite_numbered [of t tabs] by (rule rev_finite_subset) auto
  show ?thesis
  proof (cases "numbered t (Suc i) \<in> set tabs")
    case True
    then have "{n. i < n \<and> numbered t n \<in> set tabs} = insert (Suc i) ?A"
      by (auto simp: less_Suc_eq_le Suc_le_eq dest: le_neq_implies_less)
    with fin True show ?thesis by (simp add: pendingTabs_def)
  next
    case False
    then have "\<And>n. (i < n \<and> numbered t n \<in> set tabs) = (Suc i < n \<and> numbered t n \<in> set tabs)"
      by (metis Suc_lessI Suc_lessD)
    then have "{n. i < n \<and> numbered t n \<in> set tabs} = ?A"
      by simp
    with False show ?thesis by (simp add: pendingTabs_def)
  qed
qed

termination uniqueTab
proof (relation "measure (\<lambda>(tabs, propsTab, t, i).
          pendingTabs tabs propsTab i + (if t \<in> set tabs then 1 else 0))")
  show "wf (measure (\<lambda>(tabs, propsTab, t, i).
          pendingTabs tabs propsTab i + (if t \<in> set tabs then 1 else 0)))"
    by simp
next
  fix tabs :: "string list" and propsTab t :: string and i :: nat
  assume "t \<in> set tabs"
  then show "((tabs, propsTab, numbered propsTab (Suc i), Suc i), (tabs, propsTab, t, i))
      \<in> measure (\<lambda>(tabs, propsTab, t, i).
          pendingTabs tabs propsTab i + (if t \<in> set tabs then 1 else 0))"
    using pendingTabs_Suc [of tabs propsTab i] by simp
qed

declare uniqueTab.simps [simp del]

subsection \<open>script.add\<close>

lemma uniqueTab_least:
  "\<exists>n\<ge>i. uniqueTab tabs p t i = (if n = i then t else numbered p n)
         \<and> uniqueTab tabs p t i \<notin> set tabs
         \<and> (\<forall>m. i < m \<and> m < n \<longrightarrow> numbered p m \<in> set tabs)
         \<and> (n \<noteq> i \<longrightarrow> t \<in> set tabs)"
proof (induction tabs p t i rule: uniqueTab.induct)
  case (1 tabs p t i)
  show ?case
  proof (cases "t \<in> set tabs")
    case False
    then have "uniqueTab tabs p t i = t" by (simp add: uniqueTab.simps [of tabs p t i])
    with False show ?thesis by (intro exI [of _ i]) auto
  next
    case True
    from "1.IH" [OF True] obtain n where n: "Suc i \<le> n"
      and r: "uniqueTab tabs p (numbered p (Suc i)) (Suc i)
                = (if n = Suc i then numbered p (Suc i) else numbered p n)"
      and fresh: "uniqueTab tabs p (numbered p (Suc i)) (Suc i) \<notin> set tabs"
      and below: "\<forall>m. Suc i < m \<and> m < n \<longrightarrow> numbered p m \<in> set tabs"
      and first: "n \<noteq> Suc i \<longrightarrow> numbered p (Suc i) \<in> set tabs"
      by blast
    have step: "uniqueTab tabs p t i = uniqueTab tabs p (numbered p (Suc i)) (Suc i)"
      using True by (simp add: uniqueTab.simps [of tabs p t i])
    have res: "uniqueTab tabs p t i = numbered p n"
      using step r by (simp split: if_splits)
    have all: "\<forall>m. i < m \<and> m < n \<longrightarrow> numbered p m \<in> set tabs"
    proof (intro allI impI)
      fix m assume m: "i < m \<and> m < n"
      show "numbered p m \<in> set tabs"
      proof (cases "m = Suc i")
        case True
        with m first show ?thesis by auto
      next
        case False
        with m have "Suc i < m \<and> m < n" by auto
        with below show ?thesis by blast
      qed
    qed
    show ?thesis
      using n res step fresh all True by (intro exI [of _ n]) auto
  qed
qed

lemma script_add_fresh:
  "tab props \<notin> set (tabTitles data) \<Longrightarrow>
   script_add props data = data @ tabMarker @ tab props @ crlf @ qScript props"
  by (simp add: script_add_def Let_def uniqueTab.simps [of _ _ _ 0])

lemma tabTitles_twoMains: "tabTitles twoMains = [''Main'', ''Main (1)'']"
  by (simp add: tabTitles_def twoMains_def scriptFragments_def splitStr_def tabMarker_def
        crlf_def firstLine_def)

text \<open>
  C3. When the title of the section to add is already a tab title of the script,
  script.add writes the old script followed by the new section, titled with the given
  title and \<open>(n)\<close> for the least \<open>n\<close> from 1 on whose numbered title is not yet a tab
  title.
\<close>

theorem script_add_unique_tab:
  assumes "tab props \<in> set (tabTitles data)"
  shows "\<exists>n\<ge>1. script_add props data
                   = data @ tabMarker @ numbered (tab props) n @ crlf @ qScript props
               \<and> numbered (tab props) n \<notin> set (tabTitles data)
               \<and> (\<forall>m. 1 \<le> m \<and> m < n \<longrightarrow> numbered (tab props) m \<in> set (tabTitles data))"
proof -
  from uniqueTab_least [of 0 "tabTitles data" "tab props" "tab props"]
  obtain n where r: "uniqueTab (tabTitles data) (tab props) (tab props) 0
                       = (if n = 0 then tab props else numbered (tab props) n)"
    and fresh: "uniqueTab (tabTitles data) (tab props) (tab props) 0 \<notin> set (tabTitles data)"
    and below: "\<forall>m. 0 < m \<and> m < n \<longrightarrow> numbered (tab props) m \<in> set (tabTitles data)"
    by blast
  from r fresh assms have n: "n \<noteq> 0" by (cases "n = 0") simp_all
  with r have res: "uniqueTab (tabTitles data) (tab props) (tab props) 0 = numbered (tab props) n"
    by simp
  show ?thesis
    using n res fresh below by (intro exI [of _ n]) (auto simp: script_add_def Let_def)
qed

text \<open>
  The case of the spec: the tabs are Main and Main (1), the section to add is titled
  Main; the new tab is Main (2), at the end of the script.
\<close>

theorem script_add_unique_tab_witness:
  "tab \<lparr> tab = ''Main'', qScript = ''LOAD 3;'' \<rparr> \<in> set (tabTitles twoMains)
   \<and> (\<exists>n\<ge>1. script_add \<lparr> tab = ''Main'', qScript = ''LOAD 3;'' \<rparr> twoMains
                = twoMains @ tabMarker @ numbered ''Main'' n @ crlf @ ''LOAD 3;''
              \<and> numbered ''Main'' n \<notin> set (tabTitles twoMains))
   \<and> script_add \<lparr> tab = ''Main'', qScript = ''LOAD 3;'' \<rparr> twoMains
       = twoMains @ tabMarker @ ''Main (2)'' @ crlf @ ''LOAD 3;''"
proof -
  have h: "tab \<lparr> tab = ''Main'', qScript = ''LOAD 3;'' \<rparr> \<in> set (tabTitles twoMains)"
    by (simp add: tabTitles_twoMains)
  from script_add_unique_tab [OF h]
  have e: "\<exists>n\<ge>1. script_add \<lparr> tab = ''Main'', qScript = ''LOAD 3;'' \<rparr> twoMains
                = twoMains @ tabMarker @ numbered ''Main'' n @ crlf @ ''LOAD 3;''
              \<and> numbered ''Main'' n \<notin> set (tabTitles twoMains)"
    by auto
  have v: "script_add \<lparr> tab = ''Main'', qScript = ''LOAD 3;'' \<rparr> twoMains
       = twoMains @ tabMarker @ ''Main (2)'' @ crlf @ ''LOAD 3;''"
    by (simp add: script_add_def tabTitles_twoMains Let_def numbered_def showNat.simps
          digitChar_def uniqueTab.simps)
  from h e v show ?thesis by blast
qed

lemma findIndex_first:
  "p s \<Longrightarrow> \<forall>x\<in>set pre. \<not> p x \<Longrightarrow> findIndex p (pre @ s # post) = Some (length pre)"
  by (induction pre) simp_all

lemma findIndex_None: "(findIndex p xs = None) = (\<forall>x\<in>set xs. \<not> p x)"
  by (induction xs) simp_all

lemma foldl_sectionText:
  "foldl (\<lambda>a b. a @ sectionText b) acc xs = acc @ concat (map sectionText xs)"
  by (induction xs arbitrary: acc) simp_all

lemma script_update_first:
  assumes secs: "scriptSections data = pre @ s # post"
    and s: "Some (sectionTab s) = targetId"
    and pre: "\<forall>x\<in>set pre. Some (sectionTab x) \<noteq> targetId"
  shows "script_update props targetId data
           = Inr (concat (map sectionText pre)
                  @ (tabMarker @ shownTarget targetId @ crlf @ qScript props)
                  @ concat (map sectionText post))"
proof -
  have "findIndex (\<lambda>a. Some (sectionTab a) = targetId) (pre @ s # post) = Some (length pre)"
    using s pre by (intro findIndex_first) simp_all
  then show ?thesis
    by (simp add: script_update_def secs Let_def foldl_sectionText)
qed

lemma script_update_missing:
  assumes "\<forall>x\<in>set (scriptSections data). Some (sectionTab x) \<noteq> targetId"
  shows "script_update props targetId data
           = Inl (Rejected (''Script section not updated: could not find section with title ''
                            @ [CHR 0x27] @ shownTarget targetId @ [CHR 0x27]))"
proof -
  have "findIndex (\<lambda>a. Some (sectionTab a) = targetId) (scriptSections data) = None"
    using assms by (simp add: findIndex_None)
  then show ?thesis by (simp add: script_update_def Let_def)
qed

text \<open>Splitting at a separator and joining with it gives the string back.\<close>

lemma splitOn_nonempty: "splitOn c cs s \<noteq> []"
  by (induction c cs s rule: splitOn.induct) (auto split: list.splits)

lemma joinSep_Cons: "ys \<noteq> [] \<Longrightarrow> joinSep sep (x # ys) = x @ sep @ joinSep sep ys"
  by (cases ys) simp_all

lemma joinSep_Cons_Cons: "joinSep sep ((x # f) # fs) = x # joinSep sep (f # fs)"
  by (cases fs) simp_all

lemma joinSep_splitOn: "joinSep (c # cs) (splitOn c cs s) = s"
proof (induction c cs s rule: splitOn.induct)
  case (1 c cs)
  show ?case by simp
next
  case (2 c cs x xs)
  show ?case
  proof (cases "prefix (c # cs) (x # xs)")
    case True
    then obtain zs where zs: "x # xs = (c # cs) @ zs" by (auto simp: prefix_def)
    then have d: "drop (length cs) xs = zs" by simp
    from 2(1) [OF True] d have "joinSep (c # cs) (splitOn c cs zs) = zs" by simp
    with True d zs show ?thesis
      by (simp add: joinSep_Cons splitOn_nonempty)
  next
    case False
    obtain f fs where s: "splitOn c cs xs = f # fs"
      using splitOn_nonempty [of c cs xs] by (cases "splitOn c cs xs") auto
    from 2(2) [OF False] s have "joinSep (c # cs) (f # fs) = xs" by simp
    with False s show ?thesis by (auto simp: joinSep_Cons_Cons)
  qed
qed

lemma joinSep_sections: "joinSep sep (g # gs) = g @ concat (map (\<lambda>a. sep @ a) gs)"
  by (induction gs arbitrary: g) simp_all

text \<open>A well sectioned script is the concatenation of its sections.\<close>

lemma wellSectioned_roundtrip:
  assumes "wellSectioned data"
  shows "concat (map sectionText (scriptSections data)) = data"
proof -
  define c where "c = CHR ''/''"
  define cs where "cs = ''//$tab ''"
  have m: "tabMarker = c # cs" by (simp add: tabMarker_def c_def cs_def)
  have sp: "splitStr data tabMarker = splitOn c cs data"
    by (simp add: splitStr_def m)
  from assms sp obtain fs where fs: "splitOn c cs data = [] # fs" "list_all (\<lambda>a. a \<noteq> []) fs"
    by (cases "splitOn c cs data") (auto simp: wellSectioned_def)
  from fs(2) have "filter (\<lambda>a. a \<noteq> []) fs = fs"
    by (simp add: list_all_iff)
  with fs(1) sp have frag: "scriptFragments data = fs"
    by (simp add: scriptFragments_def)
  have "concat (map sectionText (scriptSections data)) = concat (map (\<lambda>a. tabMarker @ a) fs)"
    by (simp add: scriptSections_def frag comp_def)
  also have "\<dots> = joinSep tabMarker ([] # fs)"
    by (simp add: joinSep_sections)
  also have "\<dots> = data"
    using joinSep_splitOn [of c cs data] fs(1) m by simp
  finally show ?thesis .
qed

lemma wellSectioned_threeTabs: "wellSectioned threeTabs"
  by (simp add: wellSectioned_def threeTabs_def splitStr_def tabMarker_def crlf_def)

lemma scriptSections_threeTabs:
  "scriptSections threeTabs =
     [\<lparr> sectionTab = ''Main'', sectionText = tabMarker @ ''Main'' @ crlf @ ''LOAD 1;'' @ crlf \<rparr>,
      \<lparr> sectionTab = ''Extra'', sectionText = tabMarker @ ''Extra'' @ crlf @ ''LOAD 2;'' @ crlf \<rparr>,
      \<lparr> sectionTab = ''Main'', sectionText = tabMarker @ ''Main'' @ crlf @ ''LOAD 3;'' @ crlf \<rparr>]"
  by (simp add: scriptSections_def threeTabs_def scriptFragments_def splitStr_def tabMarker_def
        crlf_def firstLine_def)

text \<open>
  C4. When a section of the script has the target title, script.update writes the
  sections before the first such section as they were and in their order, then the
  section rebuilt from the target title and the new body, then the sections after it as
  they were and in their order; for a well sectioned script these sections, with the
  old section between them, are the old script. When no section has the target title,
  the promise is rejected and \<open>setScript\<close> is not called.
\<close>

theorem script_update_in_place:
  "if \<exists>s\<in>set (scriptSections data). Some (sectionTab s) = targetId
   then \<exists>pre s post.
          scriptSections data = pre @ s # post
          \<and> Some (sectionTab s) = targetId
          \<and> (\<forall>x\<in>set pre. Some (sectionTab x) \<noteq> targetId)
          \<and> script_update props targetId data
              = Inr (concat (map sectionText pre)
                     @ (tabMarker @ shownTarget targetId @ crlf @ qScript props)
                     @ concat (map sectionText post))
          \<and> (wellSectioned data \<longrightarrow>
                data = concat (map sectionText pre) @ sectionText s
                       @ concat (map sectionText post))
   else \<exists>msg. script_update props targetId data = Inl (Rejected msg)"
proof (cases "\<exists>s\<in>set (scriptSections data). Some (sectionTab s) = targetId")
  case True
  then obtain pre s post where d: "scriptSections data = pre @ s # post"
    and s: "Some (sectionTab s) = targetId"
    and pre: "\<forall>x\<in>set pre. Some (sectionTab x) \<noteq> targetId"
    using split_list_first_prop [of "scriptSections data" "\<lambda>s. Some (sectionTab s) = targetId"]
    by blast
  have w: "wellSectioned data \<longrightarrow>
             data = concat (map sectionText pre) @ sectionText s @ concat (map sectionText post)"
    using wellSectioned_roundtrip [of data] d by auto
  from script_update_first [OF d s pre] d s pre w True show ?thesis by auto
next
  case False
  then have "\<forall>x\<in>set (scriptSections data). Some (sectionTab x) \<noteq> targetId" by blast
  from script_update_missing [OF this] False show ?thesis by auto
qed

text \<open>Updating the tab Extra between two tabs Main, and updating a tab that is not there.\<close>

theorem script_update_in_place_witness:
  "(\<exists>s\<in>set (scriptSections threeTabs). Some (sectionTab s) = Some ''Extra'')
   \<and> wellSectioned threeTabs
   \<and> script_update \<lparr> tab = ''Extra'', qScript = ''LOAD 9;'' \<rparr> (Some ''Extra'') threeTabs
       = Inr (tabMarker @ ''Main'' @ crlf @ ''LOAD 1;'' @ crlf
              @ tabMarker @ ''Extra'' @ crlf @ ''LOAD 9;''
              @ tabMarker @ ''Main'' @ crlf @ ''LOAD 3;'' @ crlf)
   \<and> \<not> (\<exists>s\<in>set (scriptSections threeTabs). Some (sectionTab s) = Some ''Other'')
   \<and> (\<exists>msg. script_update \<lparr> tab = ''Other'', qScript = ''LOAD 9;'' \<rparr> (Some ''Other'') threeTabs
              = Inl (Rejected msg))"
proof -
  have h: "\<exists>s\<in>set (scriptSections threeTabs). Some (sectionTab s) = Some ''Extra''"
    by (simp add: scriptSections_threeTabs)
  have v: "script_update \<lparr> tab = ''Extra'', qScript = ''LOAD 9;'' \<rparr> (Some ''Extra'') threeTabs
       = Inr (tabMarker @ ''Main'' @ crlf @ ''LOAD 1;'' @ crlf
              @ tabMarker @ ''Extra'' @ crlf @ ''LOAD 9;''
              @ tabMarker @ ''Main'' @ crlf @ ''LOAD 3;'' @ crlf)"
    by (simp add: script_update_def scriptSections_threeTabs Let_def shownTarget_def)
  have n: "\<not> (\<exists>s\<in>set (scriptSections threeTabs). Some (sectionTab s) = Some ''Other'')"
    by (simp add: scriptSections_threeTabs)
  from script_update_in_place
         [of threeTabs "Some ''Other''" "\<lparr> tab = ''Other'', qScript = ''LOAD 9;'' \<rparr>"] n
  have r: "\<exists>msg. script_update \<lparr> tab = ''Other'', qScript = ''LOAD 9;'' \<rparr> (Some ''Other'') threeTabs
              = Inl (Rejected msg)"
    by simp
  from h wellSectioned_threeTabs v n r show ?thesis by blast
qed

text \<open>
  C10. When two sections have the target title, script.update rewrites the first of
  them; the later one is written as it was, like every other section.
\<close>

theorem script_update_first_of_equal_titles:
  assumes "scriptSections data = pre @ s # mid @ s' # post"
    and "sectionTab s = t" and "sectionTab s' = t"
    and "\<forall>x\<in>set pre. sectionTab x \<noteq> t"
  shows "script_update props (Some t) data
           = Inr (concat (map sectionText pre)
                  @ (tabMarker @ t @ crlf @ qScript props)
                  @ concat (map sectionText mid) @ sectionText s'
                  @ concat (map sectionText post))"
  using script_update_first [of data pre s "mid @ s' # post" "Some t" props] assms
  by (simp add: shownTarget_def)

text \<open>Updating the tab Main of a script with two tabs Main: the second stays.\<close>

theorem script_update_first_of_equal_titles_witness:
  "scriptSections threeTabs
     = [] @ \<lparr> sectionTab = ''Main'', sectionText = tabMarker @ ''Main'' @ crlf @ ''LOAD 1;'' @ crlf \<rparr>
          # [\<lparr> sectionTab = ''Extra'', sectionText = tabMarker @ ''Extra'' @ crlf @ ''LOAD 2;'' @ crlf \<rparr>]
          @ \<lparr> sectionTab = ''Main'', sectionText = tabMarker @ ''Main'' @ crlf @ ''LOAD 3;'' @ crlf \<rparr>
          # []
   \<and> script_update \<lparr> tab = ''Main'', qScript = ''LOAD 9;'' \<rparr> (Some ''Main'') threeTabs
       = Inr (tabMarker @ ''Main'' @ crlf @ ''LOAD 9;''
              @ tabMarker @ ''Extra'' @ crlf @ ''LOAD 2;'' @ crlf
              @ tabMarker @ ''Main'' @ crlf @ ''LOAD 3;'' @ crlf)"
proof -
  let ?s = "\<lparr> sectionTab = ''Main'', sectionText = tabMarker @ ''Main'' @ crlf @ ''LOAD 1;'' @ crlf \<rparr>"
  let ?m = "\<lparr> sectionTab = ''Extra'', sectionText = tabMarker @ ''Extra'' @ crlf @ ''LOAD 2;'' @ crlf \<rparr>"
  let ?s' = "\<lparr> sectionTab = ''Main'', sectionText = tabMarker @ ''Main'' @ crlf @ ''LOAD 3;'' @ crlf \<rparr>"
  have d: "scriptSections threeTabs = [] @ ?s # [?m] @ ?s' # []"
    by (simp add: scriptSections_threeTabs)
  have a: "sectionTab ?s = ''Main''" and b: "sectionTab ?s' = ''Main''"
    by simp_all
  have c: "\<forall>x\<in>set []. sectionTab x \<noteq> ''Main''"
    by simp
  from script_update_first_of_equal_titles
         [OF d a b c, of "\<lparr> tab = ''Main'', qScript = ''LOAD 9;'' \<rparr>"] d
  show ?thesis by simp
qed

section \<open>Importers: variables and sheets\<close>

lemma map_of_setKey: "map_of (setKey k v kvs) k' = (if k' = k then Some v else map_of kvs k')"
  by (induction kvs) auto

lemma map_of_filter_key:
  "map_of (filter (\<lambda>(k, v). P k) kvs) k' = (if P k' then map_of kvs k' else None)"
  by (induction kvs) auto

text \<open>
  What sanitizeObjectData returns: an object without \<open>qMeta\<close>, whose \<open>qMetaDef\<close> is
  an object without any of the publish fields, and whose other properties are those of
  the argument.
\<close>

lemma sanitize_object:
  "\<exists>p. sanitizeObjectData kvs = JObj p
       \<and> map_of p ''qMeta'' = None
       \<and> (\<forall>k. k \<noteq> ''qMeta'' \<longrightarrow> k \<noteq> ''qMetaDef'' \<longrightarrow> map_of p k = map_of kvs k)
       \<and> (\<exists>m. map_of p ''qMetaDef'' = Some (JObj m) \<and> (\<forall>k\<in>set publishFields. map_of m k = None))"
proof -
  obtain m where m: "omit publishFields (fieldOf ''qMetaDef'' kvs) = JObj m"
    and none: "\<forall>k\<in>set publishFields. map_of m k = None"
  proof (cases "fieldOf ''qMetaDef'' kvs")
    case (JObj x)
    show ?thesis
      by (rule that [of "filter (\<lambda>(k, v). k \<notin> set publishFields) x"])
         (simp_all add: JObj map_of_filter_key)
  next
    case (JArr x)
    show ?thesis
      by (rule that [of "filter (\<lambda>(k, v). k \<notin> set publishFields)
                           (zip (map showNat [0..<length x]) x)"])
         (simp_all add: JArr map_of_filter_key)
  qed (rule that [of "[]"]; simp)+
  show ?thesis
    by (intro exI [of _ "filter (\<lambda>(k, v). k \<notin> set [''qMeta''])
                           (setKey ''qMetaDef'' (JObj m) kvs)"])
       (use m none in \<open>auto simp: sanitizeObjectData_def map_of_filter_key map_of_setKey\<close>)
qed

lemma sanitize_qName:
  "getProp (sanitizeObjectData (deleteKey ''qIsScriptCreated'' kvs)) ''qName''
     = Inr (fieldOf ''qName'' kvs)"
proof -
  from sanitize_object [of "deleteKey ''qIsScriptCreated'' kvs"]
  obtain p where p: "sanitizeObjectData (deleteKey ''qIsScriptCreated'' kvs) = JObj p"
    and same: "\<forall>k. k \<noteq> ''qMeta'' \<longrightarrow> k \<noteq> ''qMetaDef''
                 \<longrightarrow> map_of p k = map_of (deleteKey ''qIsScriptCreated'' kvs) k"
    by blast
  from same have "map_of p ''qName'' = map_of (deleteKey ''qIsScriptCreated'' kvs) ''qName''"
    by simp
  also have "\<dots> = map_of kvs ''qName''"
    by (simp add: deleteKey_def map_of_filter_key)
  finally show ?thesis by (simp add: p fieldOf_def)
qed

lemma variable_add_new:
  assumes "\<forall>v\<in>set (variables eng). getProp v ''qName'' \<noteq> Inr (fieldOf ''qName'' kvs)"
  shows "variable_add (JObj kvs) eng
           = (Inr (), eng \<lparr> variables := variables eng
                  @ [sanitizeObjectData (deleteKey ''qIsScriptCreated'' kvs)] \<rparr>)"
  using assms by (simp add: variable_add_def createVariableEx_def sanitize_qName)

lemma variable_lookup_fails:
  assumes name: "\<forall>v\<in>set (variables eng). getProp v ''qName'' \<noteq> Inr (fieldOf ''qName'' kvs)"
    and ident: "\<forall>t. targetId = Some t \<longrightarrow> (\<forall>v\<in>set (variables eng). qIdOf v \<noteq> Inr (JStr t))"
  shows "\<exists>e. (if truthyId targetId then getVariableById (the targetId) eng
              else getVariableByName (fieldOf ''qName'' kvs) eng) = Inl e"
proof (cases "truthyId targetId")
  case True
  then obtain t where t: "targetId = Some t" by (auto simp: truthyId_def split: option.splits)
  with ident have "findIndex (\<lambda>v. qIdOf v = Inr (JStr t)) (variables eng) = None"
    by (simp add: findIndex_None)
  with True t show ?thesis by (simp add: getVariableById_def)
next
  case False
  show ?thesis
  proof (cases "fieldOf ''qName'' kvs")
    case (JStr n)
    with name have "findIndex (\<lambda>v. getProp v ''qName'' = Inr (JStr n)) (variables eng) = None"
      by (simp add: findIndex_None)
    with False JStr show ?thesis by (simp add: getVariableByName_def)
  qed (use False in \<open>simp_all add: getVariableByName_def\<close>)
qed

lemma variable_update_missing:
  assumes name: "\<forall>v\<in>set (variables eng). getProp v ''qName'' \<noteq> Inr (fieldOf ''qName'' kvs)"
    and ident: "\<forall>t. targetId = Some t \<longrightarrow> (\<forall>v\<in>set (variables eng). qIdOf v \<noteq> Inr (JStr t))"
  shows "variable_update (JObj kvs) targetId eng = variable_add (JObj kvs) eng"
  using variable_lookup_fails [OF name ident] by (auto simp: variable_update_def)

lemmas importer_defs =
  updateItem_variable_def updateSingleItem_def variable_update_def variable_add_def
  createVariableEx_def sanitizeObjectData_def getVariableById_def getVariableByName_def
  targetIdOption_def truthyId_def fieldOf_def deleteKey_def publishFields_def qIdOf_def
  bindE_def

text \<open>
  C5, as stated, fails in its last part. The item vToday is flagged updatable, the
  destination holds no variable. updateItem creates the variable, and the status then
  has updated true and imported false.
\<close>

theorem variable_update_status_counterexample:
  "updateItem_variable (variableItem ''s1'' ''vToday'' ''=Today()'') ''d1'' staleStatus
     \<lparr> variables = [] \<rparr>
   = (\<lparr> selected = False, exists = True, importable = False, importing = False,
        imported = False, importFailed = False, updatable = False,
        updating = False, updated = True, updateFailed = False \<rparr>,
      \<lparr> variables =
          [JObj [(''qInfo'', JObj [(''qId'', JStr ''s1''), (''qType'', JStr ''variable'')]),
                 (''qName'', JStr ''vToday''),
                 (''qDefinition'', JStr ''=Today()''),
                 (''qMetaDef'', JObj [])]] \<rparr>)"
  by (simp add: importer_defs variableItem_def staleStatus_def)

text \<open>
  C5, amended. When the destination has no variable of the item's name (nor of the
  target id, if one is given), variable.update does what variable.add does: the
  variable is created. Run by updateSingleItem for an item flagged updatable, the
  status afterwards has updated and exists true, updatable and updating false, no
  failure flag; imported is left as it was.
\<close>

theorem variable_update_falls_back_to_add:
  assumes name: "\<forall>v\<in>set (variables eng). getProp v ''qName'' \<noteq> Inr (fieldOf ''qName'' kvs)"
    and ident: "\<forall>t. targetId = Some t \<longrightarrow> (\<forall>v\<in>set (variables eng). qIdOf v \<noteq> Inr (JStr t))"
    and st: "updatable st" "\<not> updated st" "\<not> updateFailed st"
  shows "variable_update (JObj kvs) targetId eng = variable_add (JObj kvs) eng
         \<and> variable_add (JObj kvs) eng
             = (Inr (), eng \<lparr> variables := variables eng
                    @ [sanitizeObjectData (deleteKey ''qIsScriptCreated'' kvs)] \<rparr>)
         \<and> updateSingleItem st (variable_update (JObj kvs) targetId) eng
             = (st \<lparr> exists := True, updating := False, updated := True, updatable := False \<rparr>,
                eng \<lparr> variables := variables eng
                    @ [sanitizeObjectData (deleteKey ''qIsScriptCreated'' kvs)] \<rparr>)"
  using variable_update_missing [OF name ident] variable_add_new [OF name] st
  by (simp add: updateSingleItem_def)

text \<open>An item that is not flagged updatable is left alone, and so is the destination.\<close>

lemma updateSingleItem_skips:
  "\<not> updatable st \<Longrightarrow> updateSingleItem st updater eng = (st, eng)"
  by (simp add: updateSingleItem_def)

text \<open>The variable vToday, updated by name in a destination without variables.\<close>

theorem variable_update_falls_back_to_add_witness:
  "updatable staleStatus \<and> \<not> updated staleStatus \<and> \<not> updateFailed staleStatus
   \<and> variable_update (properties (variableItem ''s1'' ''vToday'' ''=Today()'')) None
         \<lparr> variables = [] \<rparr>
       = variable_add (properties (variableItem ''s1'' ''vToday'' ''=Today()''))
           \<lparr> variables = [] \<rparr>
   \<and> updated (fst (updateSingleItem staleStatus
         (variable_update (properties (variableItem ''s1'' ''vToday'' ''=Today()'')) None)
         \<lparr> variables = [] \<rparr>))
   \<and> \<not> updateFailed (fst (updateSingleItem staleStatus
         (variable_update (properties (variableItem ''s1'' ''vToday'' ''=Today()'')) None)
         \<lparr> variables = [] \<rparr>))"
proof -
  let ?kvs = "[(''qInfo'', JObj [(''qId'', JStr ''s1''), (''qType'', JStr ''variable'')]),
               (''qName'', JStr ''vToday''), (''qDefinition'', JStr ''=Today()'')]"
  let ?eng = "\<lparr> variables = [] \<rparr>"
  have p: "properties (variableItem ''s1'' ''vToday'' ''=Today()'') = JObj ?kvs"
    by (simp add: variableItem_def)
  have name: "\<forall>v\<in>set (variables ?eng). getProp v ''qName'' \<noteq> Inr (fieldOf ''qName'' ?kvs)"
    by simp
  have ident: "\<forall>t. None = Some t \<longrightarrow> (\<forall>v\<in>set (variables ?eng). qIdOf v \<noteq> Inr (JStr t))"
    by simp
  have st: "updatable staleStatus" "\<not> updated staleStatus" "\<not> updateFailed staleStatus"
    by (simp_all add: staleStatus_def)
  from variable_update_falls_back_to_add [OF name ident st] st p
  show ?thesis by simp
qed

lemmas sheet_defs =
  importItem_sheet_def sheet_add_def sheetItem_def sheetProps_def propOf_def bindE_def
  mathMax_def truthyNumber_def truthyId_def isArray_def fieldOf_def

text \<open>
  C6 at the failing input: the destination has one sheet, of rank 0, and the sheet to
  import has rank 0. The maximum is 0, the test \<open>if (options.sheetsMaxRank)\<close> fails, and
  the sheet is created with its own rank 0, not with rank 1.
\<close>

theorem importItem_sheet_rank_zero:
  "importItem_sheet [sheetItem ''d1'' ''Old'' 0] ''app1'' (sheetItem ''s1'' ''New'' 0)
     = Inr (CreateObject (sheetProps ''s1'' ''New'' 0))
   \<and> getProp (sheetProps ''s1'' ''New'' 0) ''rank'' = Inr (JNum 0)"
  by (simp add: sheet_defs)

text \<open>The case of the spec, ranks 0, 1 and 2: the sheet is created with rank 3.\<close>

lemma importItem_sheet_ranks_012:
  "importItem_sheet [sheetItem ''d0'' ''A'' 0, sheetItem ''d1'' ''B'' 1, sheetItem ''d2'' ''C'' 2]
      ''app1'' (sheetItem ''s1'' ''New'' 0)
     = Inr (CreateObject (sheetProps ''s1'' ''New'' 3))"
  by (simp add: sheet_defs)

text \<open>
  Where the rank is pushed to the end: when every destination sheet has a number as
  rank and the greatest of these ranks and 0 is not 0, the sheet is created with that
  rank plus 1.
\<close>

lemma reduceMaxRank_numbers:
  assumes "\<forall>b\<in>set sheets. \<exists>n. rankOf b = Some n"
  shows "reduceMaxRank (Some a) sheets
           = Inr (Some (fold max (map (\<lambda>b. the (rankOf b)) sheets) a))"
  using assms
proof (induction sheets arbitrary: a)
  case Nil
  show ?case by simp
next
  case (Cons b bs)
  from Cons.prems obtain n where n: "rankOf b = Some n" by auto
  then have r: "propOf ''rank'' b = Inr (JNum n)"
    by (auto simp: rankOf_def propOf_def split: json.splits option.splits)
  from Cons.prems have "\<forall>b\<in>set bs. \<exists>n. rankOf b = Some n" by simp
  from Cons.IH [OF this, of "max a n"] r n show ?case
    by (simp add: bindE_def mathMax_def max.commute)
qed

lemma fold_max_Max: "fold max xs (a::int) = Max (insert a (set xs))"
proof (induction xs arbitrary: a)
  case Nil
  show ?case by simp
next
  case (Cons x xs)
  have "Max (insert (max x a) (set xs)) = Max (insert a (insert x (set xs)))"
    by (cases "xs = []") (simp_all add: max.commute max.left_commute)
  with Cons show ?case by simp
qed

lemma importItem_sheet_pushes_rank:
  assumes ranks: "\<forall>b\<in>set sheets. \<exists>n. rankOf b = Some n"
    and top: "Max (insert 0 (set (map (\<lambda>b. the (rankOf b)) sheets))) \<noteq> 0"
    and props: "properties item = JObj kvs" "isArray (fieldOf ''cells'' kvs)"
  shows "importItem_sheet sheets appDataId item
           = Inr (CreateObject (JObj (setKey ''rank''
                   (JNum (Max (insert 0 (set (map (\<lambda>b. the (rankOf b)) sheets))) + 1)) kvs)))"
  using reduceMaxRank_numbers [OF ranks, of 0] top props
  by (simp add: importItem_sheet_def bindE_def sheet_add_def truthyNumber_def truthyId_def
        fold_max_Max)

text \<open>
  C7, as stated, fails: sheet.add does not call sanitizeObjectData. A sheet whose
  properties carry publish metadata is created with all of it.
\<close>

theorem sheet_add_strips_counterexample:
  "sheet_add (JObj publishedSheet) (importOptions (Some 2))
     = Inr (CreateObject
         (JObj [(''qInfo'', JObj [(''qId'', JStr ''s1''), (''qType'', JStr ''sheet'')]),
                (''qMetaDef'', JObj [(''title'', JStr ''Sales''),
                                     (''createdDate'', JStr ''2023-02-12T09:00:00.000Z''),
                                     (''published'', JBool True),
                                     (''owner'', JStr ''ann'')]),
                (''rank'', JNum 3),
                (''cells'', JArr []),
                (''qMeta'', JObj [(''privileges'', JArr [JStr ''read''])])]))"
  by (simp add: sheet_add_def publishedSheet_def publishedMeta_def importOptions_def
        truthyId_def truthyNumber_def isArray_def fieldOf_def)

lemma sheet_add_written:
  assumes "sheet_add (JObj kvs) options = Inr w"
  shows "\<exists>kvs'. writtenProps w = JObj kvs'
           \<and> (\<forall>k. k \<noteq> ''rank'' \<longrightarrow> map_of kvs' k = map_of kvs k)"
  using assms by (auto simp: sheet_add_def map_of_setKey split: if_splits)

lemma variable_add_written:
  assumes "variable_add (JObj kvs) eng = (Inr (), eng')"
  shows "\<exists>p m. variables eng' = variables eng @ [JObj p]
           \<and> map_of p ''qMeta'' = None
           \<and> map_of p ''qIsScriptCreated'' = None
           \<and> map_of p ''qMetaDef'' = Some (JObj m)
           \<and> (\<forall>k\<in>set publishFields. map_of m k = None)"
proof -
  let ?kvs = "deleteKey ''qIsScriptCreated'' kvs"
  from sanitize_object [of ?kvs]
  obtain p m where p: "sanitizeObjectData ?kvs = JObj p"
    and meta: "map_of p ''qMeta'' = None"
    and same: "\<forall>k. k \<noteq> ''qMeta'' \<longrightarrow> k \<noteq> ''qMetaDef'' \<longrightarrow> map_of p k = map_of ?kvs k"
    and m: "map_of p ''qMetaDef'' = Some (JObj m)" "\<forall>k\<in>set publishFields. map_of m k = None"
    by blast
  from same have "map_of p ''qIsScriptCreated'' = map_of ?kvs ''qIsScriptCreated''" by simp
  then have created: "map_of p ''qIsScriptCreated'' = None"
    by (simp add: deleteKey_def map_of_filter_key)
  from assms p have "variables eng' = variables eng @ [JObj p]"
    by (auto simp: variable_add_def createVariableEx_def split: if_splits)
  with meta created m show ?thesis by blast
qed

lemma map_of_deleteKey:
  "map_of (deleteKey k kvs) k' = (if k' = k then None else map_of kvs k')"
proof -
  have "deleteKey k kvs = filter (\<lambda>(k', v). k' \<noteq> k) kvs"
    by (simp add: deleteKey_def)
  then show ?thesis
    by (simp add: map_of_filter_key)
qed

lemma map_of_fold_deleteKey:
  "map_of (fold deleteKey ks m) k = (if k \<in> set ks then None else map_of m k)"
  by (induction ks arbitrary: m) (auto simp: map_of_deleteKey)

text \<open>
  What removePublishMetaData leaves: no \<open>qMeta\<close>, no publish field in \<open>qMetaDef\<close>,
  and every other property as it was.
\<close>

lemma removePublishMetaData_removes:
  assumes "removePublishMetaData data = Inr data'"
  shows "map_of data' ''qMeta'' = None
         \<and> (\<forall>k\<in>set publishFields.
               bindE (getProp (JObj data') ''qMetaDef'') (\<lambda>m. getProp m k) = Inr JUndefined)
         \<and> (\<forall>k. k \<noteq> ''qMeta'' \<longrightarrow> k \<noteq> ''qMetaDef'' \<longrightarrow> map_of data' k = map_of data k)"
proof (cases "fieldOf ''qMetaDef'' data")
  case (JObj m)
  with assms have d: "data' = deleteKey ''qMeta''
      (setKey ''qMetaDef'' (JObj (fold deleteKey publishFields m)) data)"
    by (simp add: removePublishMetaData_def)
  show ?thesis
    unfolding d
    by (simp add: map_of_deleteKey map_of_setKey map_of_fold_deleteKey bindE_def)
next
  case JUndefined
  with assms show ?thesis by (simp add: removePublishMetaData_def)
next
  case JNull
  with assms show ?thesis by (simp add: removePublishMetaData_def)
next
  case (JBool b)
  with assms have d: "data' = deleteKey ''qMeta'' data"
    by (simp add: removePublishMetaData_def)
  from JBool have "map_of data ''qMetaDef'' = Some (JBool b)"
    by (simp add: fieldOf_def split: option.splits)
  then show ?thesis
    unfolding d by (simp add: map_of_deleteKey bindE_def)
next
  case (JNum n)
  with assms have d: "data' = deleteKey ''qMeta'' data"
    by (simp add: removePublishMetaData_def)
  from JNum have "map_of data ''qMetaDef'' = Some (JNum n)"
    by (simp add: fieldOf_def split: option.splits)
  then show ?thesis
    unfolding d by (simp add: map_of_deleteKey bindE_def)
next
  case (JStr t)
  with assms have d: "data' = deleteKey ''qMeta'' data"
    by (simp add: removePublishMetaData_def)
  from JStr have "map_of data ''qMetaDef'' = Some (JStr t)"
    by (simp add: fieldOf_def split: option.splits)
  then show ?thesis
    unfolding d by (simp add: map_of_deleteKey bindE_def)
next
  case (JArr xs)
  with assms have d: "data' = deleteKey ''qMeta'' data"
    by (simp add: removePublishMetaData_def)
  from JArr have "map_of data ''qMetaDef'' = Some (JArr xs)"
    by (simp add: fieldOf_def split: option.splits)
  then show ?thesis
    unfolding d by (simp add: map_of_deleteKey bindE_def)
qed

lemma addSheet_written:
  assumes "addSheet qData n = Inr w"
  shows "\<exists>p. writtenProps w = JObj p
           \<and> map_of p ''qMeta'' = None
           \<and> (\<forall>k\<in>set publishFields.
                 bindE (getProp (JObj p) ''qMetaDef'') (\<lambda>m. getProp m k) = Inr JUndefined)
           \<and> map_of p ''rank'' = Some (JNum (int n))"
proof -
  define ranked where "ranked = setKey ''rank'' (JNum (int n))
      (qUtil_extend [(''qMetaDef'', fieldOf ''qMeta'' qData)] [fieldOf ''qData'' qData, JObj qData])"
  from assms obtain data where r: "removePublishMetaData ranked = Inr data"
    and w: "(case fieldOf ''qInfo'' data of
               JUndefined \<Rightarrow> Inl TypeError
             | JNull \<Rightarrow> Inl TypeError
             | JObj qInfo \<Rightarrow>
                 Inr (CreateObject (JObj (setKey ''qInfo'' (JObj (deleteKey ''qId'' qInfo)) data)))
             | _ \<Rightarrow> Inr (CreateObject (JObj data))) = Inr w"
    by (auto simp: addSheet_def Let_def bindE_def ranked_def split: sum.splits)
  from removePublishMetaData_removes [OF r]
  have meta: "map_of data ''qMeta'' = None"
    and fields: "\<forall>k\<in>set publishFields.
        bindE (getProp (JObj data) ''qMetaDef'') (\<lambda>m. getProp m k) = Inr JUndefined"
    and same: "\<forall>k. k \<noteq> ''qMeta'' \<longrightarrow> k \<noteq> ''qMetaDef'' \<longrightarrow> map_of data k = map_of ranked k"
    by blast+
  from same have rank: "map_of data ''rank'' = Some (JNum (int n))"
    by (simp add: ranked_def map_of_setKey)
  from w obtain p where p: "writtenProps w = JObj p"
    and keep: "\<forall>k. k \<noteq> ''qInfo'' \<longrightarrow> map_of p k = map_of data k"
    by (auto simp: map_of_setKey split: json.splits)
  from keep have k1: "map_of p ''qMeta'' = map_of data ''qMeta''"
    and k2: "map_of p ''qMetaDef'' = map_of data ''qMetaDef''"
    and k3: "map_of p ''rank'' = map_of data ''rank''"
    by simp_all
  from fields k2 have "\<forall>k\<in>set publishFields.
      bindE (getProp (JObj p) ''qMetaDef'') (\<lambda>m. getProp m k) = Inr JUndefined"
    by simp
  with p meta rank k1 k3 show ?thesis by simp
qed

text \<open>
  C7, amended. The repository adds a sheet along two paths. sheet.add of the importers
  writes the properties of the sheet as they are, but for the rank: \<open>qMetaDef\<close> with
  its publish fields and \<open>qMeta\<close> stay. \<open>$scope.addSheet\<close> of
  \<open>src/qs-emergo-app-object-importer.js\<close> strips them, by removePublishMetaData: the
  object it creates has no \<open>qMeta\<close>, none of the nine publish fields in \<open>qMetaDef\<close>,
  and the number of the destination's sheets as its rank.
\<close>

theorem sheet_add_keeps_addSheet_strips:
  "(sheet_add (JObj kvs) options = Inr w \<longrightarrow>
      (\<exists>kvs'. writtenProps w = JObj kvs'
         \<and> (\<forall>k. k \<noteq> ''rank'' \<longrightarrow> map_of kvs' k = map_of kvs k)))
   \<and> (addSheet qData n = Inr w' \<longrightarrow>
      (\<exists>p. writtenProps w' = JObj p
         \<and> map_of p ''qMeta'' = None
         \<and> (\<forall>k\<in>set publishFields.
               bindE (getProp (JObj p) ''qMetaDef'') (\<lambda>m. getProp m k) = Inr JUndefined)
         \<and> map_of p ''rank'' = Some (JNum (int n))))"
  using sheet_add_written [of kvs options w] addSheet_written [of qData n w'] by blast

lemma variable_add_published:
  "variable_add (JObj publishedVariable) \<lparr> variables = [] \<rparr>
     = (Inr (), \<lparr> variables =
          [JObj [(''qInfo'', JObj [(''qId'', JStr ''v1''), (''qType'', JStr ''variable'')]),
                 (''qMetaDef'', JObj [(''title'', JStr ''vToday'')]),
                 (''qName'', JStr ''vToday''),
                 (''qDefinition'', JStr ''=Today()'')]] \<rparr>)"
  by (simp add: variable_add_def createVariableEx_def sanitizeObjectData_def deleteKey_def
        publishFields_def fieldOf_def publishedVariable_def publishedMeta_def)

lemma sheet_add_published:
  "sheet_add (JObj publishedSheet) (importOptions None) = Inr (CreateObject (JObj publishedSheet))"
  by (simp add: sheet_add_def publishedSheet_def importOptions_def truthyId_def
        truthyNumber_def isArray_def fieldOf_def)

lemma addSheet_published:
  "addSheet publishedSheet 2
     = Inr (CreateObject
         (JObj [(''qMetaDef'', JObj [(''title'', JStr ''Sales'')]),
                (''qInfo'', JObj [(''qType'', JStr ''sheet'')]),
                (''rank'', JNum 2),
                (''cells'', JArr [])]))"
  by (simp add: addSheet_def qUtil_extend_def extendWith_def removePublishMetaData_def
        deleteKey_def publishFields_def fieldOf_def publishedSheet_def publishedMeta_def
        bindE_def Let_def)

text \<open>
  A published sheet added to a destination without sheets by sheet.add, and to a
  destination with two sheets by \<open>$scope.addSheet\<close>.
\<close>

theorem sheet_add_keeps_addSheet_strips_witness:
  "sheet_add (JObj publishedSheet) (importOptions None) = Inr (CreateObject (JObj publishedSheet))
   \<and> (\<exists>kvs'. writtenProps (CreateObject (JObj publishedSheet)) = JObj kvs'
         \<and> map_of kvs' ''qMetaDef'' = Some (publishedMeta ''Sales'')
         \<and> map_of kvs' ''qMeta'' = Some (JObj [(''privileges'', JArr [JStr ''read''])]))
   \<and> (\<exists>w'. addSheet publishedSheet 2 = Inr w'
         \<and> (\<exists>p. writtenProps w' = JObj p
               \<and> map_of p ''qMeta'' = None
               \<and> bindE (getProp (JObj p) ''qMetaDef'') (\<lambda>m. getProp m ''createdDate'')
                   = Inr JUndefined
               \<and> bindE (getProp (JObj p) ''qMetaDef'') (\<lambda>m. getProp m ''published'')
                   = Inr JUndefined
               \<and> bindE (getProp (JObj p) ''qMetaDef'') (\<lambda>m. getProp m ''owner'')
                   = Inr JUndefined
               \<and> map_of p ''qMetaDef'' = Some (JObj [(''title'', JStr ''Sales'')])
               \<and> map_of p ''rank'' = Some (JNum 2)))"
proof -
  let ?w = "CreateObject
         (JObj [(''qMetaDef'', JObj [(''title'', JStr ''Sales'')]),
                (''qInfo'', JObj [(''qType'', JStr ''sheet'')]),
                (''rank'', JNum 2),
                (''cells'', JArr [])])"
  note t = sheet_add_keeps_addSheet_strips
             [of publishedSheet "importOptions None" "CreateObject (JObj publishedSheet)"
                 publishedSheet 2 ?w]
  from t sheet_add_published
  obtain kvs' where s: "writtenProps (CreateObject (JObj publishedSheet)) = JObj kvs'"
    "\<forall>k. k \<noteq> ''rank'' \<longrightarrow> map_of kvs' k = map_of publishedSheet k"
    by blast
  from s(2) have s1: "map_of kvs' ''qMetaDef'' = Some (publishedMeta ''Sales'')"
    and s2: "map_of kvs' ''qMeta'' = Some (JObj [(''privileges'', JArr [JStr ''read''])])"
    by (simp_all add: publishedSheet_def)
  from t addSheet_published
  obtain p where a: "writtenProps ?w = JObj p" "map_of p ''qMeta'' = None"
    "\<forall>k\<in>set publishFields.
       bindE (getProp (JObj p) ''qMetaDef'') (\<lambda>m. getProp m k) = Inr JUndefined"
    "map_of p ''rank'' = Some (JNum (int 2))"
    by blast
  from a(3) have f: "bindE (getProp (JObj p) ''qMetaDef'') (\<lambda>m. getProp m ''createdDate'')
                       = Inr JUndefined"
    "bindE (getProp (JObj p) ''qMetaDef'') (\<lambda>m. getProp m ''published'') = Inr JUndefined"
    "bindE (getProp (JObj p) ''qMetaDef'') (\<lambda>m. getProp m ''owner'') = Inr JUndefined"
    by (simp_all add: publishFields_def)
  from a(1) have m: "map_of p ''qMetaDef'' = Some (JObj [(''title'', JStr ''Sales'')])"
    by auto
  from a(4) have r: "map_of p ''rank'' = Some (JNum 2)" by simp
  from sheet_add_published s(1) s1 s2 addSheet_published a(1,2) f m r show ?thesis by blast
qed

section \<open>Set definitions: when the values can be read\<close>


















section \<open>openApp: one promise per app\<close>

lemma apps_settle: "apps (settle r outcome c) = apps c"
  by (simp add: settle_def)

lemma engineOpens_settle: "engineOpens (settle r outcome c) = engineOpens c"
  by (simp add: settle_def)

text \<open>A call for an app that is in the list returns the promise stored and changes nothing.\<close>

lemma openApp_cached:
  assumes "appId \<noteq> []" "currAppId \<in> dom (apps c)" "apps c appId = Some r"
  shows "openApp currAppId (AppId appId) c = (r, c)"
  using assms by (auto simp: openApp_def setCurrentApp_def loadRequestedApp_def Let_def)

text \<open>After a call the app and the current app are in the list.\<close>

lemma openApp_caches:
  assumes "appId \<noteq> []" "openApp currAppId (AppId appId) c = (r, c')"
  shows "currAppId \<in> dom (apps c') \<and> apps c' appId = Some r"
  using assms
  by (auto simp: openApp_def setCurrentApp_def loadRequestedApp_def newPromise_def Let_def
        split: if_splits)

text \<open>No call removes or replaces an entry of the list, or opens an app that is in it.\<close>

lemma apps_openApp: "apps c \<subseteq>\<^sub>m apps (snd (openApp currAppId arg c))"
  by (auto simp: openApp_def setCurrentApp_def loadRequestedApp_def newPromise_def Let_def
        map_le_def split: open_arg.splits)

lemma opens_openApp:
  assumes "appId \<in> dom (apps c)"
  shows "filter (\<lambda>x. x = appId) (engineOpens (snd (openApp currAppId arg c)))
           = filter (\<lambda>x. x = appId) (engineOpens c)"
  using assms
  by (auto simp: openApp_def setCurrentApp_def loadRequestedApp_def newPromise_def Let_def
        split: open_arg.splits)

lemma later_keeps:
  assumes "later currAppId c c'"
  shows "apps c \<subseteq>\<^sub>m apps c'
         \<and> (appId \<in> dom (apps c) \<longrightarrow>
              filter (\<lambda>x. x = appId) (engineOpens c') = filter (\<lambda>x. x = appId) (engineOpens c))"
  using assms
proof (induction rule: later.induct)
  case now
  show ?case by simp
next
  case (settled c' r outcome)
  then show ?case by (simp add: apps_settle engineOpens_settle)
next
  case (called c' arg)
  from called.IH have le: "apps c \<subseteq>\<^sub>m apps c'" by blast
  have "apps c \<subseteq>\<^sub>m apps (snd (openApp currAppId arg c'))"
    using le apps_openApp [of c' currAppId arg] by (rule map_le_trans)
  moreover have "appId \<in> dom (apps c) \<longrightarrow>
      filter (\<lambda>x. x = appId) (engineOpens (snd (openApp currAppId arg c')))
        = filter (\<lambda>x. x = appId) (engineOpens c)"
  proof
    assume a: "appId \<in> dom (apps c)"
    with le have "appId \<in> dom (apps c')" by (auto simp: map_le_def dom_def)
    from opens_openApp [OF this, of currAppId arg] called.IH a show
      "filter (\<lambda>x. x = appId) (engineOpens (snd (openApp currAppId arg c')))
        = filter (\<lambda>x. x = appId) (engineOpens c)" by simp
  qed
  ultimately show ?case by blast
qed

text \<open>
  C8. After a first call of openApp for an app identifier, every later call for the
  same identifier returns the same promise, whether promises have settled in between
  or not (the state \<open>c'\<close> right after the first call is itself a later state), and
  changes nothing; the engine is not asked again to open that app.
\<close>

theorem openApp_same_promise:
  assumes "appId \<noteq> []" and "openApp currAppId (AppId appId) c = (r, c')"
    and "later currAppId c' c''"
  shows "openApp currAppId (AppId appId) c'' = (r, c'')
         \<and> filter (\<lambda>x. x = appId) (engineOpens c'')
             = filter (\<lambda>x. x = appId) (engineOpens c')"
proof -
  from openApp_caches [OF assms(1,2)]
  have cur: "currAppId \<in> dom (apps c')" and app: "apps c' appId = Some r" by simp_all
  from later_keeps [OF assms(3), of appId] app
  have le: "apps c' \<subseteq>\<^sub>m apps c''"
    and opens: "filter (\<lambda>x. x = appId) (engineOpens c'')
                  = filter (\<lambda>x. x = appId) (engineOpens c')"
    by auto
  from le cur have cur': "currAppId \<in> dom (apps c'')" by (auto simp: map_le_def dom_def)
  from le app have app': "apps c'' appId = Some r"
    by (metis domI map_le_def)
  from openApp_cached [OF assms(1) cur' app'] opens show ?thesis by simp
qed

text \<open>
  The first call for app1 from an empty list makes promise 1 (promise 0 is the current
  app's) and opens the app once; the second call, before and after promise 1 is
  fulfilled, returns promise 1.
\<close>

theorem openApp_same_promise_witness:
  "fst (openApp ''cur'' (AppId ''app1'') emptyCache) = 1
   \<and> engineOpens (snd (openApp ''cur'' (AppId ''app1'') emptyCache)) = [''app1'']
   \<and> fst (openApp ''cur'' (AppId ''app1'') (snd (openApp ''cur'' (AppId ''app1'') emptyCache))) = 1
   \<and> later ''cur'' (snd (openApp ''cur'' (AppId ''app1'') emptyCache))
        (settle 1 (Fulfilled ''app1'') (snd (openApp ''cur'' (AppId ''app1'') emptyCache)))
   \<and> fst (openApp ''cur'' (AppId ''app1'')
        (settle 1 (Fulfilled ''app1'') (snd (openApp ''cur'' (AppId ''app1'') emptyCache)))) = 1
   \<and> promises (snd (openApp ''cur'' (AppId ''app1'')
        (settle 1 (Fulfilled ''app1'') (snd (openApp ''cur'' (AppId ''app1'') emptyCache)))))
       = [Fulfilled ''cur'', Fulfilled ''app1'']
   \<and> engineOpens (snd (openApp ''cur'' (AppId ''app1'')
        (settle 1 (Fulfilled ''app1'') (snd (openApp ''cur'' (AppId ''app1'') emptyCache)))))
       = [''app1'']"
proof -
  let ?first = "openApp ''cur'' (AppId ''app1'') emptyCache"
  let ?done = "settle 1 (Fulfilled ''app1'') (snd ?first)"
  have n: "''app1'' \<noteq> []" by simp
  have f: "?first = (fst ?first, snd ?first)" by simp
  have r: "fst ?first = 1"
    by (simp add: openApp_def setCurrentApp_def loadRequestedApp_def newPromise_def
          emptyCache_def Let_def)
  have p: "promises (snd ?first) = [Fulfilled ''cur'', Pending]"
    by (simp add: openApp_def setCurrentApp_def loadRequestedApp_def newPromise_def
          emptyCache_def Let_def)
  have e: "engineOpens (snd ?first) = [''app1'']"
    by (simp add: openApp_def setCurrentApp_def loadRequestedApp_def newPromise_def
          emptyCache_def Let_def)
  have l0: "later ''cur'' (snd ?first) (snd ?first)"
    by (rule later.now)
  have l1: "later ''cur'' (snd ?first) ?done"
    by (rule later.settled) (rule later.now)
  from openApp_same_promise [OF n f l0]
  have a: "openApp ''cur'' (AppId ''app1'') (snd ?first) = (fst ?first, snd ?first)"
    by simp
  from openApp_same_promise [OF n f l1]
  have b: "openApp ''cur'' (AppId ''app1'') ?done = (fst ?first, ?done)"
    by simp
  have s: "promises ?done = [Fulfilled ''cur'', Fulfilled ''app1'']"
    by (simp add: settle_def p)
  have o: "engineOpens ?done = [''app1'']"
    by (simp add: engineOpens_settle e)
  from r e a l1 b s o show ?thesis by simp
qed

end
